theory Spec2Isabelle
  imports Complex_Main "HOL-Library.Multiset"
begin

section \<open>The catalog and the records handed back to callers\<close>

text \<open>
  One row of \<open>self.data\<close>, the frame read from the CSV file. The fields carry the column
  names of \<open>required_columns\<close>. The eight audio features are floating-point numbers in
  the source; they are taken as real numbers here, so every statement about scores below
  is a statement about exact arithmetic. \<open>track_popularity\<close> and \<open>duration_ms\<close> are
  integer columns, the four text columns are strings (ASCII, one \<open>char\<close> per character).
  With integer columns the conversions \<open>int(song['track_popularity'])\<close> and
  \<open>int(song['duration_ms'])\<close> cannot raise, so the fallback \<open>popularity = 0\<close> of
  \<open>get_recommendations\<close> has no counterpart here.
\<close>

record song =
  energy :: real
  tempo :: real
  danceability :: real
  loudness :: real
  liveness :: real
  valence :: real
  speechiness :: real
  acousticness :: real
  track_name :: string
  track_artist :: string
  track_album_name :: string
  track_popularity :: int
  playlist_genre :: string
  duration_ms :: int

text \<open>
  The dictionary built for every song that is returned. The key \<open>'track_name'\<close> is
  written \<open>track_name'\<close> because the column of the same name is already a field of
  \<open>song\<close>. \<open>similarity_score\<close> is present only in the entries of
  \<open>get_recommendations\<close>; elsewhere the key is absent (\<open>None\<close>).
\<close>

record song_dict =
  track_name' :: string
  artist :: string
  album :: string
  similarity_score :: "real option"
  popularity :: int
  genre :: string
  duration :: int

definition song_entry :: "song \<Rightarrow> song_dict" where
  "song_entry s =
     \<lparr>track_name' = track_name s, artist = track_artist s, album = track_album_name s,
      similarity_score = None, popularity = track_popularity s,
      genre = playlist_genre s, duration = duration_ms s div 1000\<rparr>"

text \<open>The state of a \<open>MusicRecommender\<close>: the frame and the scaled feature matrix.\<close>

record recommender =
  data :: "song list"
  song_features :: "real list list"

section \<open>Strings\<close>

definition lower_char :: "char \<Rightarrow> char" where
  "lower_char c =
     (case map_of (zip ''ABCDEFGHIJKLMNOPQRSTUVWXYZ'' ''abcdefghijklmnopqrstuvwxyz'') c of
        Some d \<Rightarrow> d
      | None \<Rightarrow> c)"

definition lower :: "string \<Rightarrow> string" where
  "lower s = map lower_char s"

text \<open>
  The characters \<open>str.strip()\<close> removes in the ASCII range: tab, line feed, vertical
  tab, form feed, carriage return, the four separators 28 to 31, and the space.
\<close>

definition is_space :: "char \<Rightarrow> bool" where
  "is_space c = (c \<in> set [CHR 0x09, CHR 0x0A, CHR 0x0B, CHR 0x0C, CHR 0x0D,
                            CHR 0x1C, CHR 0x1D, CHR 0x1E, CHR 0x1F, CHR 0x20])"

definition strip :: "string \<Rightarrow> string" where
  "strip s = rev (dropWhile is_space (rev (dropWhile is_space s)))"

text \<open>Python's \<open>pat in s\<close>: \<open>pat\<close> occurs in \<open>s\<close> as a contiguous piece.\<close>

fun contains :: "string \<Rightarrow> string \<Rightarrow> bool" where
  "contains pat [] = (pat = [])"
| "contains pat (c # s) = (take (length pat) (c # s) = pat \<or> contains pat s)"

section \<open>Library functions the recommender calls\<close>

subsection \<open>Regular expressions and close matches\<close>

text \<open>
  \<open>Series.str.contains(pat, na=False)\<close> compiles \<open>pat\<close> as a regular expression and
  searches every entry for it. A pattern without any of the fourteen special characters
  is a literal, and searching for it is \<open>contains\<close>. For the other patterns the compiled
  regular expression is the parameter \<open>re_compile\<close>: it yields the error text when the
  pattern does not compile, and the search predicate otherwise. The fuzzy matcher of
  \<open>difflib\<close> is the parameter \<open>get_close_matches\<close>, called with \<open>n=5, cutoff=0.6\<close>.
  The third parameter, \<open>tie_order\<close>, is what \<open>np.argsort\<close> leaves open: the order in
  which it visits the indices of an array, which decides the order of equal values.
\<close>

record library =
  re_compile :: "string \<Rightarrow> string + (string \<Rightarrow> bool)"
  get_close_matches :: "string \<Rightarrow> string list \<Rightarrow> string list"
  tie_order :: "real list \<Rightarrow> nat list"

definition special_chars :: "char list" where
  "special_chars = ''.^$*+?{}[]()|'' @ [CHR 0x5C]"

definition str_contains :: "library \<Rightarrow> string \<Rightarrow> string + (string \<Rightarrow> bool)" where
  "str_contains lib pat =
     (if \<forall>c \<in> set pat. c \<notin> set special_chars then Inr (contains pat)
      else re_compile lib pat)"

subsection \<open>StandardScaler\<close>

text \<open>
  \<open>fit_transform\<close> takes, per column, the mean and the population standard deviation;
  a standard deviation of zero is replaced by 1 before the division
  (\<open>_handle_zeros_in_scale\<close>, which \<open>cosine_similarity\<close> applies to norms as well).
\<close>

definition mean :: "real list \<Rightarrow> real" where
  "mean xs = sum_list xs / real (length xs)"

definition var :: "real list \<Rightarrow> real" where
  "var xs = mean (map (\<lambda>x. (x - mean xs)\<^sup>2) xs)"

definition handle_zeros_in_scale :: "real \<Rightarrow> real" where
  "handle_zeros_in_scale s = (if s = 0 then 1 else s)"

definition scale :: "real list \<Rightarrow> real" where
  "scale xs = handle_zeros_in_scale (sqrt (var xs))"

definition column :: "real list list \<Rightarrow> nat \<Rightarrow> real list" where
  "column X j = map (\<lambda>r. r ! j) X"

definition transform_value :: "real list list \<Rightarrow> nat \<Rightarrow> real \<Rightarrow> real" where
  "transform_value X j x = (x - mean (column X j)) / scale (column X j)"

definition transform :: "real list list \<Rightarrow> real list list" where
  "transform X = map (\<lambda>r. map (\<lambda>j. transform_value X j (r ! j)) [0..<length r]) X"

text \<open>Fitting a frame without rows is refused: the scaler needs at least one sample.\<close>

datatype py_error = ValueError | InitError

definition fit_transform :: "real list list \<Rightarrow> py_error + real list list" where
  "fit_transform X = (if X = [] then Inl ValueError else Inr (transform X))"

subsection \<open>Cosine similarity\<close>

text \<open>
  \<open>cosine_similarity(X, Y)\<close> divides every row by its Euclidean norm, a norm of zero
  being replaced by 1, and multiplies the normalised rows.
\<close>

definition dot :: "real list \<Rightarrow> real list \<Rightarrow> real" where
  "dot u v = (\<Sum>(x, y) \<leftarrow> zip u v. x * y)"

definition row_norm :: "real list \<Rightarrow> real" where
  "row_norm v = sqrt (dot v v)"

definition normalize :: "real list \<Rightarrow> real list" where
  "normalize v = map (\<lambda>x. x / handle_zeros_in_scale (row_norm v)) v"

definition cosine_similarity :: "real list \<Rightarrow> real list list \<Rightarrow> real list" where
  "cosine_similarity q Y = map (\<lambda>y. dot (normalize q) (normalize y)) Y"

subsection \<open>Sorting, slicing, sampling\<close>

text \<open>
  \<open>np.argsort\<close> with its default kind: the indices in ascending order of their
  values, with no promise about the order of equal values. The result is that of sorting
  an arrangement of the indices by value without moving equal values past each other;
  the arrangement is the library's \<open>tie_order\<close> for the array (the index order when
  what it gives is not an arrangement of the indices). Every ascending arrangement of
  the indices is the result for some \<open>tie_order\<close>, namely itself.
\<close>

definition arrangement :: "library \<Rightarrow> real list \<Rightarrow> nat list" where
  "arrangement lib xs =
     (if sort (tie_order lib xs) = [0..<length xs] then tie_order lib xs
      else [0..<length xs])"

definition argsort :: "library \<Rightarrow> real list \<Rightarrow> nat list" where
  "argsort lib xs = sort_key (\<lambda>i. xs ! i) (arrangement lib xs)"

text \<open>A slice bound of Python, negative bounds counting from the end, clipped.\<close>

definition slice_bound :: "int \<Rightarrow> nat \<Rightarrow> nat" where
  "slice_bound i n = (if i < 0 then nat (max 0 (i + int n)) else min (nat i) n)"

definition slice :: "'a list \<Rightarrow> int \<Rightarrow> int \<Rightarrow> 'a list" where
  "slice xs start stop =
     drop (slice_bound start (length xs)) (take (slice_bound stop (length xs)) xs)"

text \<open>
  \<open>np.random.choice(a, size, replace=False)\<close> takes the first \<open>size\<close> entries of a
  shuffled \<open>arange(a)\<close>. The shuffle walks \<open>i\<close> from \<open>a - 1\<close> down to 1 and swaps
  position \<open>i\<close> with a position drawn from \<open>0..i\<close>. The random source is the function
  \<open>rng\<close>: \<open>rng i\<close> is the raw number drawn at step \<open>i\<close>.
\<close>

definition swap :: "nat \<Rightarrow> nat \<Rightarrow> 'a list \<Rightarrow> 'a list" where
  "swap i j xs = xs[i := xs ! j, j := xs ! i]"

primrec shuffle :: "(nat \<Rightarrow> nat) \<Rightarrow> nat \<Rightarrow> nat list \<Rightarrow> nat list" where
  "shuffle rng 0 xs = xs"
| "shuffle rng (Suc i) xs = shuffle rng i (swap (Suc i) (rng (Suc i) mod (Suc (Suc i))) xs)"

definition permutation :: "(nat \<Rightarrow> nat) \<Rightarrow> nat \<Rightarrow> nat list" where
  "permutation rng a = shuffle rng (a - 1) [0..<a]"

definition choice :: "(nat \<Rightarrow> nat) \<Rightarrow> nat \<Rightarrow> nat \<Rightarrow> py_error + nat list" where
  "choice rng a sz =
     (if a = 0 \<and> sz \<noteq> 0 then Inl ValueError
      else if a < sz then Inl ValueError
      else Inr (take sz (permutation rng a)))"

section \<open>The recommender\<close>

subsection \<open>Construction\<close>

definition features :: "song \<Rightarrow> real list" where
  "features s = [energy s, tempo s, danceability s, loudness s,
                 liveness s, valence s, speechiness s, acousticness s]"

text \<open>
  \<open>__init__\<close> with the frame already read: \<open>_prepare_data\<close> scales the feature columns;
  any exception is raised again as the initialisation error.
\<close>

definition MusicRecommender :: "song list \<Rightarrow> py_error + recommender" where
  "MusicRecommender rows =
     (case fit_transform (map features rows) of
        Inl e \<Rightarrow> Inl InitError
      | Inr scaled \<Rightarrow> Inr \<lparr>data = rows, song_features = scaled\<rparr>)"

subsection \<open>get_recommendations\<close>

text \<open>The index of the rows a boolean mask selects, in dataset order.\<close>

definition index_where :: "(song \<Rightarrow> bool) \<Rightarrow> song list \<Rightarrow> nat list" where
  "index_where keep rows = filter (\<lambda>i. keep (rows ! i)) [0..<length rows]"

datatype result =
    Result (recommendations: "song_dict list") (input_song: song_dict)
  | Error (message: string) (suggestions: "string list")

text \<open>
  The loop over the close matches: the index of the first one that is the lowercased
  title of some row; the index left by the last iteration (empty) when there is none.
\<close>

fun first_similar :: "song list \<Rightarrow> string list \<Rightarrow> nat list" where
  "first_similar rows [] = []"
| "first_similar rows (similar_song # rest) =
     (let song_idx = index_where (\<lambda>s. lower (track_name s) = similar_song) rows
      in if song_idx \<noteq> [] then song_idx else first_similar rows rest)"

definition not_found_message :: "string \<Rightarrow> string" where
  "not_found_message song_name =
     ''Song '' @ [CHR 0x27] @ song_name @ [CHR 0x27] @ '' not found. Did you mean:''"

text \<open>
  Lines 250 to 285: the four attempts to find the row of the query, already lowercased
  and stripped. \<open>Inr\<close> is the row index \<open>song_idx[0]\<close>, \<open>Inl\<close> the dictionary returned
  early (no row found, or the pattern raised and the handler of line 335 answered).
\<close>

definition find_song :: "library \<Rightarrow> recommender \<Rightarrow> string \<Rightarrow> result + nat" where
  "find_song lib self song_name =
     (let song_idx = index_where (\<lambda>s. lower (track_name s) = song_name) (data self) in
      if song_idx \<noteq> [] then Inr (hd song_idx)
      else case str_contains lib song_name of
        Inl e \<Rightarrow> Inl (Error (''Error getting recommendations: '' @ e) [])
      | Inr found \<Rightarrow>
         (let song_idx = index_where (\<lambda>s. found (lower (track_name s))) (data self) in
          if song_idx \<noteq> [] then Inr (hd song_idx)
          else
            let song_idx = index_where (\<lambda>s. found (lower (track_artist s))) (data self) in
            if song_idx \<noteq> [] then Inr (hd song_idx)
            else
              let all_songs = map (\<lambda>s. lower (track_name s)) (data self);
                  similar_songs = get_close_matches lib song_name all_songs;
                  song_idx = first_similar (data self) similar_songs
              in if song_idx \<noteq> [] then Inr (hd song_idx)
                 else Inl (Error (not_found_message song_name)
                             (if similar_songs \<noteq> [] then take 3 similar_songs else []))))"

definition similarity_scores :: "recommender \<Rightarrow> nat \<Rightarrow> real list" where
  "similarity_scores self song_idx =
     cosine_similarity (song_features self ! song_idx) (song_features self)"

text \<open>\<open>np.argsort(similarity_scores)[-num_recommendations-1:-1][::-1]\<close>\<close>

definition top_indices :: "library \<Rightarrow> real list \<Rightarrow> nat \<Rightarrow> nat list" where
  "top_indices lib scores num_recommendations =
     rev (slice (argsort lib scores) (- int num_recommendations - 1) (- 1))"

text \<open>The rows for which the loop of line 296 appends an entry, in the order it does.\<close>

definition recommended_rows ::
  "library \<Rightarrow> recommender \<Rightarrow> nat \<Rightarrow> nat \<Rightarrow> int \<Rightarrow> nat list" where
  "recommended_rows lib self song_idx num_recommendations min_popularity =
     filter (\<lambda>idx. track_popularity (data self ! idx) \<ge> min_popularity)
       (top_indices lib (similarity_scores self song_idx) num_recommendations)"

definition recommendation :: "recommender \<Rightarrow> nat \<Rightarrow> nat \<Rightarrow> song_dict" where
  "recommendation self song_idx idx =
     (song_entry (data self ! idx))
       \<lparr>similarity_score := Some (similarity_scores self song_idx ! idx)\<rparr>"

definition get_recommendations ::
  "library \<Rightarrow> recommender \<Rightarrow> string \<Rightarrow> nat \<Rightarrow> int \<Rightarrow> result" where
  "get_recommendations lib self song_name num_recommendations min_popularity =
     (case find_song lib self (strip (lower song_name)) of
        Inl early \<Rightarrow> early
      | Inr song_idx \<Rightarrow>
          Result
            (map (recommendation self song_idx)
               (recommended_rows lib self song_idx num_recommendations min_popularity))
            (song_entry (data self ! song_idx)))"

subsection \<open>Sampling from a filtered frame\<close>

text \<open>
  The tail shared by the four sampling methods: draw
  \<open>min(num, len(filtered_data))\<close> positions without replacement and build the entry of
  each drawn row, in the order drawn.
\<close>

definition sample_rows :: "(nat \<Rightarrow> nat) \<Rightarrow> song list \<Rightarrow> nat \<Rightarrow> py_error + song_dict list" where
  "sample_rows rng filtered_data num =
     (case choice rng (length filtered_data) (min num (length filtered_data)) of
        Inl e \<Rightarrow> Inl e
      | Inr random_indices \<Rightarrow> Inr (map (\<lambda>idx. song_entry (filtered_data ! idx)) random_indices))"

subsection \<open>get_mood_based_recommendations\<close>

definition mood_filters :: "(string \<times> ((song \<Rightarrow> real) \<times> real \<times> real) list) list" where
  "mood_filters =
     [(''happy'', [(valence, 0.7, 1.0), (energy, 0.6, 1.0)]),
      (''sad'', [(valence, 0.0, 0.3), (energy, 0.0, 0.4)]),
      (''energetic'', [(energy, 0.8, 1.0), (tempo, 120, 200)]),
      (''calm'', [(energy, 0.0, 0.3), (acousticness, 0.7, 1.0)])]"

fun apply_filters :: "((song \<Rightarrow> real) \<times> real \<times> real) list \<Rightarrow> song list \<Rightarrow> song list" where
  "apply_filters [] filtered_data = filtered_data"
| "apply_filters ((feature, min_val, max_val) # rest) filtered_data =
     apply_filters rest
       (filter (\<lambda>s. feature s \<ge> min_val \<and> feature s \<le> max_val) filtered_data)"

text \<open>
  \<open>Inl\<close> is an exception that leaves the method, \<open>Inr None\<close> the value \<open>None\<close> it
  returns for an unknown mood and for a mood no row satisfies.
\<close>

definition get_mood_based_recommendations ::
  "(nat \<Rightarrow> nat) \<Rightarrow> recommender \<Rightarrow> string \<Rightarrow> nat \<Rightarrow> py_error + song_dict list option" where
  "get_mood_based_recommendations rng self mood num_recommendations =
     (case map_of mood_filters (lower mood) of
        None \<Rightarrow> Inr None
      | Some filters \<Rightarrow>
          let filtered_data = apply_filters filters (data self) in
          if length filtered_data = 0 then Inr None
          else case sample_rows rng filtered_data num_recommendations of
                 Inl e \<Rightarrow> Inl e
               | Inr recs \<Rightarrow> Inr (Some recs))"

subsection \<open>get_genre_recommendations\<close>

definition get_genre_recommendations ::
  "(nat \<Rightarrow> nat) \<Rightarrow> recommender \<Rightarrow> string \<Rightarrow> nat \<Rightarrow> py_error + song_dict list option" where
  "get_genre_recommendations rng self genre_name num_recommendations =
     (let g = lower genre_name;
          unique = remdups (map playlist_genre (data self));
          exact = filter (\<lambda>x. lower x = g) unique;
          matching_genres = (if exact = [] then filter (\<lambda>x. contains g (lower x)) unique
                             else exact)
      in if matching_genres = [] then Inr None
         else
           let genre_data = filter (\<lambda>s. playlist_genre s \<in> set matching_genres) (data self)
           in if length genre_data = 0 then Inr None
              else case sample_rows rng genre_data num_recommendations of
                     Inl e \<Rightarrow> Inl e
                   | Inr recs \<Rightarrow> Inr (Some recs))"

subsection \<open>get_random_songs\<close>

definition error_entry :: song_dict where
  "error_entry =
     \<lparr>track_name' = ''Error loading songs'', artist = ''System Error'',
      album = ''Please try again'', similarity_score = None, popularity = 0,
      genre = ''Unknown'', duration = 0\<rparr>"

text \<open>The rows left by the two optional filters; \<open>None\<close> and the empty string both
  count as no genre given.\<close>

definition random_pool :: "recommender \<Rightarrow> int \<Rightarrow> string option \<Rightarrow> song list" where
  "random_pool self min_popularity genre_opt =
     (let filtered_data = data self;
          filtered_data = (if min_popularity > 0
                           then filter (\<lambda>s. track_popularity s \<ge> min_popularity) filtered_data
                           else filtered_data)
      in case genre_opt of
           None \<Rightarrow> filtered_data
         | Some g \<Rightarrow>
             if g = [] then filtered_data
             else filter (\<lambda>s. lower (playlist_genre s) = lower g) filtered_data)"

definition get_random_songs ::
  "(nat \<Rightarrow> nat) \<Rightarrow> recommender \<Rightarrow> nat \<Rightarrow> int \<Rightarrow> string option \<Rightarrow> song_dict list" where
  "get_random_songs rng self num_songs min_popularity genre_opt =
     (case sample_rows rng (random_pool self min_popularity genre_opt) num_songs of
        Inl e \<Rightarrow> [error_entry]
      | Inr random_songs \<Rightarrow> random_songs)"

subsection \<open>get_indian_music_recommendations\<close>

definition indian_indicators :: "string list" where
  "indian_indicators =
     [''rahman'', ''arijit'', ''shreya'', ''sonu'', ''kumar'', ''khan'', ''kapoor'',
      ''bollywood'', ''tollywood'', ''kollywood'', ''mollywood'',
      ''hindi'', ''tamil'', ''telugu'', ''malayalam'', ''bengali'', ''punjabi'',
      ''kannada'', ''marathi'', ''gujarati'', ''bhojpuri'']"

text \<open>The pattern \<open>'|'.join(indian_indicators)\<close> is found where one of the words is.\<close>

definition contains_indicator :: "string \<Rightarrow> bool" where
  "contains_indicator s = (\<exists>w \<in> set indian_indicators. contains w s)"

definition indian_mask :: "song \<Rightarrow> bool" where
  "indian_mask s =
     (contains_indicator (lower (track_artist s)) \<or>
      contains_indicator (lower (track_name s)) \<or>
      contains_indicator (lower (track_album_name s)) \<or>
      contains ''indian'' (lower (playlist_genre s)))"

definition indian_pool :: "recommender \<Rightarrow> int \<Rightarrow> song list" where
  "indian_pool self min_popularity =
     (let indian_songs = filter indian_mask (data self)
      in if min_popularity > 0
         then filter (\<lambda>s. track_popularity s \<ge> min_popularity) indian_songs
         else indian_songs)"

definition get_indian_music_recommendations ::
  "(nat \<Rightarrow> nat) \<Rightarrow> recommender \<Rightarrow> nat \<Rightarrow> int \<Rightarrow> song_dict list option" where
  "get_indian_music_recommendations rng self num_recommendations min_popularity =
     (if length (filter indian_mask (data self)) = 0 then None
      else case sample_rows rng (indian_pool self min_popularity) num_recommendations of
             Inl e \<Rightarrow> None
           | Inr recs \<Rightarrow> Some recs)"

section \<open>Vocabulary of the properties\<close>

text \<open>Row \<open>i\<close> is the earliest row of the dataset that satisfies \<open>P\<close>.\<close>

definition first_row :: "(song \<Rightarrow> bool) \<Rightarrow> song list \<Rightarrow> nat \<Rightarrow> bool" where
  "first_row P rows i = (i < length rows \<and> P (rows ! i) \<and> (\<forall>j < i. \<not> P (rows ! j)))"

text \<open>
  The entries \<open>recs\<close> are those of \<open>min num (length pool)\<close> pairwise different rows of
  \<open>pool\<close>.
\<close>

definition sampled_from :: "song list \<Rightarrow> nat \<Rightarrow> song_dict list \<Rightarrow> bool" where
  "sampled_from pool num recs =
     (\<exists>idxs. recs = map (\<lambda>idx. song_entry (pool ! idx)) idxs \<and> distinct idxs \<and>
             (\<forall>idx \<in> set idxs. idx < length pool) \<and> length idxs = min num (length pool))"

text \<open>The rows a mood selects; none for a mood that is not in the table.\<close>

definition mood_pool :: "recommender \<Rightarrow> string \<Rightarrow> song list" where
  "mood_pool self mood =
     (case map_of mood_filters (lower mood) of
        None \<Rightarrow> []
      | Some filters \<Rightarrow> apply_filters filters (data self))"

text \<open>The entry \<open>r\<close> describes the row \<open>s\<close>, its duration in whole seconds.\<close>

definition from_row :: "song \<Rightarrow> song_dict \<Rightarrow> bool" where
  "from_row s r =
     (track_name' r = track_name s \<and> artist r = track_artist s \<and>
      album r = track_album_name s \<and> popularity r = track_popularity s \<and>
      genre r = playlist_genre s \<and> duration r = duration_ms s div 1000)"

section \<open>Example catalogs\<close>

definition track :: "string \<Rightarrow> string \<Rightarrow> real \<Rightarrow> real \<Rightarrow> int \<Rightarrow> song" where
  "track title by_artist e v pop =
     \<lparr>energy = e, tempo = 0, danceability = 0, loudness = 0, liveness = 0, valence = v,
      speechiness = 0, acousticness = 0, track_name = title, track_artist = by_artist,
      track_album_name = ''Album'', track_popularity = pop, playlist_genre = ''pop'',
      duration_ms = 215999\<rparr>"

text \<open>The feature vector of a track with energy \<open>e\<close> and valence \<open>v\<close>, or its scaled
  counterpart.\<close>

definition point :: "real \<Rightarrow> real \<Rightarrow> real list" where
  "point e v = [e, 0, 0, 0, 0, v, 0, 0]"

text \<open>A library with no regular expressions, a matcher that finds close what starts
  with the same letter, and a sort that leaves equal values in index order.\<close>

definition toy_library :: library where
  "toy_library =
     \<lparr>re_compile = (\<lambda>pat. Inl ''bad pattern''),
      get_close_matches = (\<lambda>word possibilities.
         take 5 (filter (\<lambda>p. take 1 p = take 1 word) possibilities)),
      tie_order = (\<lambda>xs. [0..<length xs])\<rparr>"

text \<open>The same library with a sort that leaves equal values in descending index order.\<close>

definition descending_library :: library where
  "descending_library = toy_library\<lparr>tie_order := (\<lambda>xs. rev [0..<length xs])\<rparr>"

text \<open>A library whose matcher answers with four strings that are no titles.\<close>

definition stray_library :: library where
  "stray_library =
     toy_library\<lparr>get_close_matches :=
       (\<lambda>word possibilities. [''one'', ''two'', ''three'', ''four''])\<rparr>"

text \<open>A random source for the examples.\<close>

definition sample_source :: "nat \<Rightarrow> nat" where
  "sample_source i = 7 * i + 3"

text \<open>Rows 0 and 1 carry the same features.\<close>

definition twins :: "song list" where
  "twins = [track ''Alpha'' ''Ann'' 0 0 50, track ''Beta'' ''Bob'' 0 0 50,
            track ''Gamma'' ''Cy'' 1 0 50, track ''Delta'' ''Di'' 1 0 50]"

definition twins_rec :: recommender where
  "twins_rec =
     \<lparr>data = twins,
      song_features = [point (- 1) 0, point (- 1) 0, point 1 0, point 1 0]\<rparr>"

text \<open>Four rows at the corners of a square in energy and valence.\<close>

definition square :: "song list" where
  "square = [track ''North'' ''Nora'' 0 0 50, track ''East'' ''Eli'' 0 1 90,
             track ''South'' ''Sam'' 1 0 10, track ''West'' ''Wes'' 1 1 50]"

definition square_rec :: recommender where
  "square_rec =
     \<lparr>data = square,
      song_features = [point (- 1) (- 1), point (- 1) 1, point 1 (- 1), point 1 1]\<rparr>"

text \<open>A title that ends in a space, behind a longer title with the same beginning.\<close>

definition greetings :: "song list" where
  "greetings = [track ''Hello World'' ''Ann'' 0 0 50, track ''Hello '' ''Bob'' 0 0 50]"

definition greetings_rec :: recommender where
  "greetings_rec = \<lparr>data = greetings, song_features = [point 0 0, point 0 0]\<rparr>"

section \<open>Lemmas about the library functions\<close>

subsection \<open>argsort\<close>

lemma mset_arrangement: "mset (arrangement lib xs) = mset [0..<length xs]"
proof (cases "sort (tie_order lib xs) = [0..<length xs]")
  case True
  have "mset (tie_order lib xs) = mset (sort (tie_order lib xs))" by simp
  then show ?thesis using True by (simp add: arrangement_def)
next
  case False
  then show ?thesis by (simp add: arrangement_def)
qed

lemma mset_argsort: "mset (argsort lib xs) = mset [0..<length xs]"
  by (simp add: argsort_def mset_arrangement del: mset_upt)

lemma set_argsort: "set (argsort lib xs) = {..<length xs}"
proof -
  have "set (argsort lib xs) = set [0..<length xs]" by (rule mset_eq_setD[OF mset_argsort])
  then show ?thesis by (simp add: atLeast0LessThan)
qed

lemma length_argsort: "length (argsort lib xs) = length xs"
  using mset_eq_length[OF mset_argsort, of lib xs] by simp

lemma distinct_argsort: "distinct (argsort lib xs)"
  by (simp add: mset_eq_imp_distinct_iff[OF mset_argsort])

lemma sorted_argsort: "sorted (map (\<lambda>i. xs ! i) (argsort lib xs))"
  by (simp add: argsort_def)

text \<open>Every ascending arrangement of the indices is what \<open>argsort\<close> returns for the
  library that visits the indices in that order.\<close>

lemma argsort_any_order:
  assumes "sort p = [0..<length xs]" and "sorted (map (\<lambda>i. xs ! i) p)"
    and "tie_order lib xs = p"
  shows "argsort lib xs = p"
  using assms by (simp add: argsort_def arrangement_def sort_key_id_if_sorted)

lemma argsort_toy: "argsort toy_library xs = sort_key (\<lambda>i. xs ! i) [0..<length xs]"
  by (simp add: argsort_def arrangement_def toy_library_def sorted_sort_id)

lemma argsort_descending:
  "argsort descending_library xs = sort_key (\<lambda>i. xs ! i) (rev [0..<length xs])"
proof -
  have "sort (rev [0..<length xs]) = [0..<length xs]"
    by (rule properties_for_sort) simp_all
  then show ?thesis
    by (simp add: argsort_def arrangement_def descending_library_def)
qed

lemma top_indices_eq:
  "top_indices lib scores k = take k (tl (rev (argsort lib scores)))"
proof -
  let ?a = "argsort lib scores"
  let ?n = "length ?a"
  have b1: "slice_bound (- 1) ?n = ?n - 1"
    by (simp add: slice_bound_def)
  have b2: "slice_bound (- int k - 1) ?n = ?n - 1 - k"
    by (simp add: slice_bound_def)
  have "rev (drop (?n - 1 - k) (take (?n - 1) ?a)) =
          take (?n - 1 - (?n - 1 - k)) (rev (take (?n - 1) ?a))"
    by (simp add: rev_drop)
  also have "\<dots> = take k (rev (take (?n - 1) ?a))"
  proof (cases "k \<le> ?n - 1")
    case True
    then have "?n - 1 - (?n - 1 - k) = k" by arith
    then show ?thesis by simp
  next
    case False
    then have "?n - 1 - (?n - 1 - k) = ?n - 1" by arith
    with False show ?thesis by simp
  qed
  also have "rev (take (?n - 1) ?a) = tl (rev ?a)"
  proof (cases "?a = []")
    case True
    then show ?thesis by simp
  next
    case False
    then have "?n - (?n - 1) = Suc 0" by (cases ?a) auto
    then show ?thesis by (simp add: rev_take drop_Suc)
  qed
  finally have "rev (drop (?n - 1 - k) (take (?n - 1) ?a)) = take k (tl (rev ?a))" .
  then show ?thesis
    unfolding top_indices_def slice_def b1 b2 .
qed

subsection \<open>shuffle\<close>

lemma mset_shuffle: "i < length xs \<Longrightarrow> mset (shuffle rng i xs) = mset xs"
proof (induction i arbitrary: xs)
  case 0
  then show ?case by simp
next
  case (Suc i)
  let ?j = "rng (Suc i) mod Suc (Suc i)"
  have "?j < Suc (Suc i)" by simp
  then have j: "?j < length xs" using Suc.prems by linarith
  have "mset (swap (Suc i) ?j xs) = mset xs"
    unfolding swap_def using Suc.prems j by (simp add: mset_swap)
  moreover have "i < length (swap (Suc i) ?j xs)"
    using Suc.prems by (simp add: swap_def)
  ultimately show ?case using Suc.IH by simp
qed

lemma mset_permutation: "mset (permutation rng a) = mset [0..<a]"
proof (cases a)
  case 0
  then show ?thesis by (simp add: permutation_def)
next
  case (Suc n)
  then show ?thesis unfolding permutation_def by (simp add: mset_shuffle del: mset_upt)
qed

lemma permutation_props:
  "distinct (permutation rng a)" "set (permutation rng a) = {..<a}" "length (permutation rng a) = a"
proof -
  have m: "mset (permutation rng a) = mset [0..<a]" by (rule mset_permutation)
  show "distinct (permutation rng a)" by (simp add: mset_eq_imp_distinct_iff[OF m])
  have "set (permutation rng a) = set [0..<a]" by (rule mset_eq_setD[OF m])
  then show "set (permutation rng a) = {..<a}" by (simp add: atLeast0LessThan)
  show "length (permutation rng a) = a" using mset_eq_length[OF m] by simp
qed

lemma choice_ok:
  assumes "sz \<le> a"
  shows "\<exists>idxs. choice rng a sz = Inr idxs \<and> distinct idxs \<and> (\<forall>i \<in> set idxs. i < a) \<and> length idxs = sz"
proof -
  let ?p = "permutation rng a"
  have "choice rng a sz = Inr (take sz ?p)" using assms by (auto simp: choice_def)
  moreover have "distinct (take sz ?p)" by (simp add: permutation_props)
  moreover have "\<forall>i \<in> set (take sz ?p). i < a"
    using permutation_props(2)[of rng a] by (auto dest: in_set_takeD)
  moreover have "length (take sz ?p) = sz" using assms by (simp add: permutation_props)
  ultimately show ?thesis by blast
qed

subsection \<open>dot products\<close>











subsection \<open>constant columns\<close>




subsection \<open>The example catalogs, evaluated\<close>

lemma upt8: "[0..<8] = [0, 1, 2, 3, 4, 5, 6, 7]"
  by (simp add: upt_rec)

lemma twins_features: "map features twins = [point 0 0, point 0 0, point 1 0, point 1 0]"
  by (simp add: twins_def track_def features_def point_def)

lemma twins_built: "MusicRecommender twins = Inr twins_rec"
  unfolding MusicRecommender_def fit_transform_def twins_features
  by (simp add: transform_def transform_value_def column_def mean_def var_def scale_def
      handle_zeros_in_scale_def twins_rec_def point_def upt8 power2_eq_square real_sqrt_divide)

lemma twins_scores: "similarity_scores twins_rec 0 = [1, 1, - 1, - 1]"
  by (simp add: similarity_scores_def cosine_similarity_def normalize_def row_norm_def dot_def
      handle_zeros_in_scale_def twins_rec_def point_def)

lemma square_features: "map features square = [point 0 0, point 0 1, point 1 0, point 1 1]"
  by (simp add: square_def track_def features_def point_def)

lemma square_built: "MusicRecommender square = Inr square_rec"
  unfolding MusicRecommender_def fit_transform_def square_features
  by (simp add: transform_def transform_value_def column_def mean_def var_def scale_def
      handle_zeros_in_scale_def square_rec_def point_def upt8 power2_eq_square real_sqrt_divide)

lemma square_scores: "similarity_scores square_rec 0 = [1, 0, 0, - 1]"
  by (simp add: similarity_scores_def cosine_similarity_def normalize_def row_norm_def dot_def
      handle_zeros_in_scale_def square_rec_def point_def)

lemma greetings_features: "map features greetings = [point 0 0, point 0 0]"
  by (simp add: greetings_def track_def features_def point_def)

lemma greetings_built: "MusicRecommender greetings = Inr greetings_rec"
  unfolding MusicRecommender_def fit_transform_def greetings_features
  by (simp add: transform_def transform_value_def column_def mean_def var_def scale_def
      handle_zeros_in_scale_def greetings_rec_def point_def upt8)

lemma twins_scores_1: "similarity_scores twins_rec 1 = [1, 1, - 1, - 1]"
  by (simp add: similarity_scores_def cosine_similarity_def normalize_def row_norm_def dot_def
      handle_zeros_in_scale_def twins_rec_def point_def)

lemma top_twins_descending: "top_indices descending_library [1, 1, - 1, - 1] 5 = [1, 2, 3]"
  by (simp add: top_indices_def argsort_descending slice_def slice_bound_def upt_rec)

lemma top_square: "top_indices toy_library [1, 0, 0, - 1] 5 = [2, 1, 3]"
  by (simp add: top_indices_def argsort_toy slice_def slice_bound_def upt_rec)

lemma top_square_1: "top_indices toy_library [1, 0, 0, - 1] 1 = [2]"
  by (simp add: top_indices_def argsort_toy slice_def slice_bound_def upt_rec)

subsection \<open>Construction and row lookup\<close>

lemma built:
  assumes "MusicRecommender rows = Inr self"
  shows "data self = rows" and "rows \<noteq> []"
    and "length (song_features self) = length rows"
proof -
  have ne: "rows \<noteq> []"
    using assms by (auto simp: MusicRecommender_def fit_transform_def split: if_splits)
  then have self: "self = \<lparr>data = rows, song_features = transform (map features rows)\<rparr>"
    using assms by (simp add: MusicRecommender_def fit_transform_def)
  show "data self = rows" by (simp add: self)
  show "rows \<noteq> []" by (rule ne)
  show "length (song_features self) = length rows" by (simp add: self transform_def)
qed

lemma index_where_empty: "index_where P rows = [] \<longleftrightarrow> (\<forall>s \<in> set rows. \<not> P s)"
proof -
  have "index_where P rows = [] \<longleftrightarrow> (\<forall>i < length rows. \<not> P (rows ! i))"
    by (auto simp: index_where_def filter_empty_conv)
  then show ?thesis by (simp add: all_set_conv_all_nth)
qed

lemma index_where_first:
  assumes "first_row P rows i"
  shows "index_where P rows \<noteq> []" and "hd (index_where P rows) = i"
proof -
  have i: "i < length rows" and Pi: "P (rows ! i)" and before: "\<forall>j < i. \<not> P (rows ! j)"
    using assms by (auto simp: first_row_def)
  have split: "[0..<length rows] = [0..<i] @ i # [Suc i..<length rows]"
    using i by (metis le0 less_imp_le_nat upt_add_eq_append upt_conv_Cons le_add_diff_inverse)
  have "filter (\<lambda>j. P (rows ! j)) [0..<i] = []"
    using before by (simp add: filter_empty_conv)
  then have "index_where P rows = i # filter (\<lambda>j. P (rows ! j)) [Suc i..<length rows]"
    unfolding index_where_def split using Pi by simp
  then show "index_where P rows \<noteq> []" and "hd (index_where P rows) = i" by simp_all
qed

lemma index_where_hd:
  assumes "index_where P rows \<noteq> []"
  shows "first_row P rows (hd (index_where P rows))"
proof -
  obtain i rest where ir: "filter (\<lambda>j. P (rows ! j)) [0..<length rows] = i # rest"
    using assms by (auto simp: index_where_def neq_Nil_conv)
  then have "i \<in> set (filter (\<lambda>j. P (rows ! j)) [0..<length rows])" by simp
  then have i: "i < length rows" "P (rows ! i)" by auto
  have "\<forall>j < i. \<not> P (rows ! j)"
  proof (intro allI impI notI)
    fix j assume j: "j < i" and Pj: "P (rows ! j)"
    have s: "sorted_wrt (<) (filter (\<lambda>j. P (rows ! j)) [0..<length rows])"
      by (rule sorted_wrt_filter) (simp add: sorted_wrt_upt)
    have "j \<in> set (i # rest)" using j i(1) Pj unfolding ir[symmetric] by simp
    then have "j = i \<or> i < j" using s unfolding ir by auto
    then show False using j by auto
  qed
  then show ?thesis using i ir by (simp add: first_row_def index_where_def)
qed

lemma get_recommendations_found:
  assumes "find_song lib self (strip (lower song_name)) = Inr song_idx"
  shows "get_recommendations lib self song_name k m =
           Result (map (recommendation self song_idx) (recommended_rows lib self song_idx k m))
                  (song_entry (data self ! song_idx))"
  using assms by (simp add: get_recommendations_def)

lemma find_song_exact:
  assumes "first_row (\<lambda>s. lower (track_name s) = name) (data self) i"
  shows "find_song lib self name = Inr i"
  using index_where_first[OF assms] by (simp add: find_song_def Let_def)

lemma recommended_rows_eq:
  "recommended_rows lib self song_idx k m =
     filter (\<lambda>idx. m \<le> track_popularity (data self ! idx))
       (take k (tl (rev (argsort lib (similarity_scores self song_idx)))))"
  by (simp add: recommended_rows_def top_indices_eq)

lemma recommended_rows_ranked:
  "sorted_wrt (\<lambda>i j. similarity_scores self song_idx ! j \<le> similarity_scores self song_idx ! i)
     (recommended_rows lib self song_idx k m)"
proof -
  let ?s = "similarity_scores self song_idx"
  have "sorted_wrt (\<lambda>i j. ?s ! i \<le> ?s ! j) (argsort lib ?s)"
    using sorted_argsort[of ?s lib] by (simp add: sorted_map)
  then have "sorted_wrt (\<lambda>i j. ?s ! j \<le> ?s ! i) (rev (argsort lib ?s))"
    by (simp add: sorted_wrt_rev)
  then have "sorted_wrt (\<lambda>i j. ?s ! j \<le> ?s ! i) (tl (rev (argsort lib ?s)))"
    by (metis sorted_wrt_drop drop_Suc drop0)
  then show ?thesis
    unfolding recommended_rows_eq by (intro sorted_wrt_filter sorted_wrt_take)
qed

lemma twins_rows_descending: "recommended_rows descending_library twins_rec 1 5 0 = [1, 2, 3]"
  unfolding recommended_rows_def twins_scores_1 top_twins_descending
  by (simp add: twins_rec_def twins_def track_def)

lemma square_rows: "recommended_rows toy_library square_rec 0 5 0 = [2, 1, 3]"
  unfolding recommended_rows_def square_scores top_square
  by (simp add: square_rec_def square_def track_def)

lemma square_rows_1: "recommended_rows toy_library square_rec 0 1 50 = []"
  unfolding recommended_rows_def square_scores top_square_1
  by (simp add: square_rec_def square_def track_def)

lemma lower_alpha: "strip (lower ''alpha'') = ''alpha''" "strip (lower ''north'') = ''north''"
  "strip (lower ''beta'') = ''beta''"
  by (simp_all add: strip_def lower_def lower_char_def is_space_def)

lemma twins_find: "find_song lib twins_rec ''alpha'' = Inr 0"
  by (rule find_song_exact)
     (simp add: first_row_def twins_rec_def twins_def track_def lower_def lower_char_def)

lemma twins_find_beta: "find_song lib twins_rec ''beta'' = Inr 1"
  by (rule find_song_exact)
     (simp add: first_row_def twins_rec_def twins_def track_def lower_def lower_char_def)

lemma set_tl_rev:
  assumes "distinct a" and "a \<noteq> []"
  shows "set (tl (rev a)) = set a - {last a}"
proof -
  obtain ys y where a: "a = ys @ [y]" using assms(2) by (cases a rule: rev_cases) auto
  have "y \<notin> set ys" using assms(1) a by simp
  then show ?thesis unfolding a by auto
qed

lemma last_argsort_max:
  assumes "i < length xs"
  shows "xs ! i \<le> xs ! last (argsort lib xs)"
proof -
  have i: "i \<in> set (argsort lib xs)" using assms by (simp add: set_argsort)
  then obtain ys y where a: "argsort lib xs = ys @ [y]"
    by (cases "argsort lib xs" rule: rev_cases) auto
  have "sorted (map (\<lambda>i. xs ! i) (ys @ [y]))"
    using sorted_argsort[of xs lib] unfolding a .
  then have "\<forall>j \<in> set ys. xs ! j \<le> xs ! y" by (simp add: sorted_append)
  moreover have "i \<in> set ys \<or> i = y" using i unfolding a by auto
  ultimately show ?thesis unfolding a by auto
qed

lemma square_find: "find_song lib square_rec ''north'' = Inr 0"
  by (rule find_song_exact)
     (simp add: first_row_def square_rec_def square_def track_def lower_def lower_char_def)

section \<open>The similarity ranking\<close>

lemma twins_popular: "\<forall>s \<in> set twins. 0 \<le> track_popularity s"
  by (simp add: twins_def track_def)

lemma data_twins: "data twins_rec = twins" "length twins = 4"
  by (simp_all add: twins_rec_def twins_def)

lemma twins_either:
  "0 \<in> set (recommended_rows lib twins_rec 0 5 0) \<or>
   1 \<in> set (recommended_rows lib twins_rec 1 5 0)"
proof -
  define xs :: "real list" where "xs = [1, 1, - 1, - 1]"
  define a where "a = argsort lib xs"
  define l where "l = last a"
  have len: "length xs = 4" by (simp add: xs_def)
  have set_a: "set a = {..<4}" unfolding a_def using set_argsort[of lib xs] len by simp
  have zero_in: "0 \<in> set a" unfolding set_a by simp
  have ne: "a \<noteq> []"
  proof
    assume "a = []"
    then show False using zero_in by simp
  qed
  have rest: "set (tl (rev a)) = set a - {l}"
    unfolding l_def a_def by (rule set_tl_rev[OF distinct_argsort ne[unfolded a_def]])
  have "length (tl (rev a)) \<le> 5" unfolding a_def by (simp add: length_argsort len)
  then have all: "take 5 (tl (rev a)) = tl (rev a)" by simp
  have "\<forall>idx \<in> set (tl (rev a)). 0 \<le> track_popularity (data twins_rec ! idx)"
  proof
    fix idx assume "idx \<in> set (tl (rev a))"
    then have "idx < length twins" using rest set_a by (simp add: data_twins)
    then have "twins ! idx \<in> set twins" by (rule nth_mem)
    then show "0 \<le> track_popularity (data twins_rec ! idx)"
      using twins_popular by (simp add: data_twins)
  qed
  then have keep: "filter (\<lambda>idx. 0 \<le> track_popularity (data twins_rec ! idx)) (tl (rev a))
                     = tl (rev a)"
    by (rule filter_True)
  have rows: "set (recommended_rows lib twins_rec i 5 0) = set a - {l}"
    if "similarity_scores twins_rec i = xs" for i
    unfolding recommended_rows_eq that a_def[symmetric] all keep by (rule rest)
  have le: "xs ! 0 \<le> xs ! l"
    unfolding l_def a_def by (rule last_argsort_max) (simp add: len)
  have lt: "l < 4" using last_in_set[OF ne] set_a unfolding l_def by simp
  have "l \<noteq> 2"
  proof
    assume "l = 2"
    then show False using le by (simp add: xs_def)
  qed
  moreover have "l \<noteq> 3"
  proof
    assume "l = 3"
    then show False using le by (simp add: xs_def)
  qed
  ultimately have "l = 0 \<or> l = 1" using lt by linarith
  then show ?thesis
  proof
    assume "l = 0"
    then have "1 \<in> set a - {l}" using set_a by simp
    then show ?thesis using rows[of 1] twins_scores_1 by (simp add: xs_def)
  next
    assume "l = 1"
    then have "0 \<in> set a - {l}" using set_a by simp
    then show ?thesis using rows[of 0] twins_scores by (simp add: xs_def)
  qed
qed

text \<open>
  C1. The claim: the recommendations never contain the row of the query itself. The
  slice drops the row that \<open>argsort\<close> ranks last, whichever it is. In \<open>twins\<close> rows 0 and
  1 have the same features, so either of them as the query gives both the score 1, and
  one and the same of the two is ranked last for both queries. Whatever the order of
  equal values, one of the two queries \<open>alpha\<close> (row 0) and \<open>beta\<close> (row 1) is therefore
  returned among its own recommendations. With equal values left in descending index
  order it is \<open>beta\<close>, returned as its own best recommendation.
\<close>

theorem query_row_among_recommendations:
  "MusicRecommender twins = Inr twins_rec \<and>
   find_song lib twins_rec (strip (lower ''alpha'')) = Inr 0 \<and>
   find_song lib twins_rec (strip (lower ''beta'')) = Inr 1 \<and>
   (0 \<in> set (recommended_rows lib twins_rec 0 5 0) \<or>
    1 \<in> set (recommended_rows lib twins_rec 1 5 0)) \<and>
   recommended_rows descending_library twins_rec 1 5 0 = [1, 2, 3] \<and>
   map track_name'
     (recommendations (get_recommendations descending_library twins_rec ''beta'' 5 0))
     = [''Beta'', ''Gamma'', ''Delta'']"
proof -
  have f: "find_song descending_library twins_rec (strip (lower ''beta'')) = Inr 1"
    by (simp add: lower_alpha twins_find_beta)
  have "map track_name'
          (recommendations (get_recommendations descending_library twins_rec ''beta'' 5 0))
          = map (\<lambda>idx. track_name (twins ! idx)) [1, 2, 3]"
    unfolding get_recommendations_found[OF f] twins_rows_descending
    by (simp add: recommendation_def song_entry_def twins_rec_def)
  then have "map track_name'
          (recommendations (get_recommendations descending_library twins_rec ''beta'' 5 0))
          = [''Beta'', ''Gamma'', ''Delta'']"
    by (simp add: twins_def track_def)
  then show ?thesis
    using twins_built twins_either[of lib] twins_rows_descending
    by (simp add: lower_alpha twins_find twins_find_beta)
qed

text \<open>
  C2, as the code has it. The \<open>num_recommendations\<close> rows ranked highest after the
  first are taken, and of these the rows below \<open>min_popularity\<close> are left out: the
  popularity filter comes after the cut, so fewer rows than asked for are returned
  although more would pass. The call does not fail for that, and it returns no row at
  all when \<open>min_popularity\<close> lies above the popularity of every row.
\<close>

theorem popularity_filter_after_cut:
  assumes "MusicRecommender rows = Inr self"
    and "find_song lib self (strip (lower song_name)) = Inr song_idx"
  shows "get_recommendations lib self song_name k m =
           Result
             (map (recommendation self song_idx)
                (filter (\<lambda>idx. m \<le> track_popularity (rows ! idx))
                   (take k (tl (rev (argsort lib (similarity_scores self song_idx)))))))
             (song_entry (rows ! song_idx)) \<and>
         length (recommendations (get_recommendations lib self song_name k m)) \<le> k \<and>
         ((\<forall>s \<in> set rows. track_popularity s < m) \<longrightarrow>
            recommendations (get_recommendations lib self song_name k m) = [])"
proof -
  let ?top = "take k (tl (rev (argsort lib (similarity_scores self song_idx))))"
  have d: "data self = rows" by (rule built(1)[OF assms(1)])
  have eq: "get_recommendations lib self song_name k m =
              Result (map (recommendation self song_idx)
                        (filter (\<lambda>idx. m \<le> track_popularity (rows ! idx)) ?top))
                     (song_entry (rows ! song_idx))"
    unfolding get_recommendations_found[OF assms(2)] recommended_rows_eq d ..
  have "length (filter (\<lambda>idx. m \<le> track_popularity (rows ! idx)) ?top) \<le> length ?top"
    by (rule length_filter_le)
  also have "\<dots> \<le> k" by simp
  finally have len: "length (recommendations (get_recommendations lib self song_name k m)) \<le> k"
    by (simp add: eq)
  have none: "filter (\<lambda>idx. m \<le> track_popularity (rows ! idx)) ?top = []"
    if low: "\<forall>s \<in> set rows. track_popularity s < m"
  proof -
    have "length (similarity_scores self song_idx) = length rows"
      by (simp add: similarity_scores_def cosine_similarity_def built(3)[OF assms(1)])
    then have "set (argsort lib (similarity_scores self song_idx)) = {..<length rows}"
      by (simp add: set_argsort)
    moreover have "set ?top \<subseteq> set (argsort lib (similarity_scores self song_idx))"
      by (metis set_take_subset set_rev list.set_sel(2) subsetI subset_trans tl_Nil)
    ultimately have "\<forall>idx \<in> set ?top. rows ! idx \<in> set rows" by auto
    then have "\<forall>idx \<in> set ?top. \<not> m \<le> track_popularity (rows ! idx)"
      using low by (metis not_le)
    then show ?thesis by (simp add: filter_empty_conv)
  qed
  show ?thesis using eq len none by simp
qed

theorem popularity_filter_after_cut_witness:
  "MusicRecommender square = Inr square_rec \<and>
   find_song toy_library square_rec (strip (lower ''north'')) = Inr 0 \<and>
   list_all (\<lambda>s. track_popularity s < 101) square \<and>
   length (recommendations (get_recommendations toy_library square_rec ''north'' 5 101)) \<le> 5 \<and>
   recommendations (get_recommendations toy_library square_rec ''north'' 5 101) = []"
proof -
  have f: "find_song toy_library square_rec (strip (lower ''north'')) = Inr 0"
    by (simp add: lower_alpha square_find)
  have low: "\<forall>s \<in> set square. track_popularity s < 101"
    by (simp add: square_def track_def)
  show ?thesis
    using popularity_filter_after_cut[OF square_built f, of 5 101, THEN conjunct2]
      f low square_built by (simp add: list_all_iff)
qed

text \<open>
  C2 as stated, filter first and cut afterwards, fails on \<open>square\<close>: for the query
  \<open>north\<close> with one recommendation and a popularity floor of 50, row 1 passes the floor
  and is the first such row of the ranking, yet nothing is returned, because the one
  row kept by the cut is row 2 with popularity 10.
\<close>

theorem popularity_filter_counterexample:
  "find_song toy_library square_rec (strip (lower ''north'')) = Inr 0 \<and>
   recommendations (get_recommendations toy_library square_rec ''north'' 1 50) = [] \<and>
   take 1 (filter (\<lambda>idx. 50 \<le> track_popularity (square ! idx))
             (tl (rev (argsort toy_library (similarity_scores square_rec 0))))) = [1]"
proof -
  have f: "find_song toy_library square_rec (strip (lower ''north'')) = Inr 0"
    by (simp add: lower_alpha square_find)
  have "recommendations (get_recommendations toy_library square_rec ''north'' 1 50) = []"
    unfolding get_recommendations_found[OF f] square_rows_1 by simp
  moreover have "take 1 (filter (\<lambda>idx. 50 \<le> track_popularity (square ! idx))
             (tl (rev (argsort toy_library (similarity_scores square_rec 0))))) = [1]"
    unfolding square_scores argsort_toy by (simp add: upt_rec square_def track_def)
  ultimately show ?thesis using f by simp
qed

text \<open>
  C3, as the code has it. The recommendations are in non-increasing order of score.
  Nothing orders rows of equal score: they come in the reverse of the order in which
  \<open>argsort\<close> leaves them, which the library does not promise.
\<close>

theorem recommendations_ranked:
  assumes "find_song lib self (strip (lower song_name)) = Inr song_idx"
  shows "recommendations (get_recommendations lib self song_name k m) =
           map (recommendation self song_idx) (recommended_rows lib self song_idx k m) \<and>
         sorted_wrt (\<lambda>i j. similarity_scores self song_idx ! j
                              \<le> similarity_scores self song_idx ! i)
           (recommended_rows lib self song_idx k m) \<and>
         sorted_wrt (\<lambda>a b. the (similarity_score b) \<le> the (similarity_score a))
           (recommendations (get_recommendations lib self song_name k m))"
proof -
  let ?rows = "recommended_rows lib self song_idx k m"
  let ?s = "similarity_scores self song_idx"
  have eq: "recommendations (get_recommendations lib self song_name k m) =
              map (recommendation self song_idx) ?rows"
    by (simp add: get_recommendations_found[OF assms])
  have r: "sorted_wrt (\<lambda>i j. ?s ! j \<le> ?s ! i) ?rows"
    by (rule recommended_rows_ranked)
  then have "sorted_wrt (\<lambda>a b. the (similarity_score b) \<le> the (similarity_score a))
               (map (recommendation self song_idx) ?rows)"
    by (simp add: sorted_wrt_map recommendation_def)
  then show ?thesis using eq r by simp
qed

theorem recommendations_ranked_witness:
  "find_song toy_library square_rec (strip (lower ''north'')) = Inr 0 \<and>
   recommended_rows toy_library square_rec 0 5 0 = [2, 1, 3] \<and>
   similarity_scores square_rec 0 = [1, 0, 0, - 1] \<and>
   sorted_wrt (\<lambda>i j. similarity_scores square_rec 0 ! j \<le> similarity_scores square_rec 0 ! i)
     (recommended_rows toy_library square_rec 0 5 0) \<and>
   sorted_wrt (\<lambda>a b. the (similarity_score b) \<le> the (similarity_score a))
     (recommendations (get_recommendations toy_library square_rec ''north'' 5 0))"
proof -
  have f: "find_song toy_library square_rec (strip (lower ''north'')) = Inr 0"
    by (simp add: lower_alpha square_find)
  show ?thesis
    using recommendations_ranked[OF f, of 5 0, THEN conjunct2] f square_rows square_scores
    by simp
qed

text \<open>
  C3 as stated, equal scores in increasing row index, fails on \<open>square\<close> with a sort that
  leaves equal values in index order: rows 1 and 2 have the score 0 for the query
  \<open>north\<close>, and row 2 is returned before row 1.
\<close>

theorem tie_order_counterexample:
  "find_song toy_library square_rec (strip (lower ''north'')) = Inr 0 \<and>
   map track_name' (recommendations (get_recommendations toy_library square_rec ''north'' 5 0))
     = [''South'', ''East'', ''West''] \<and>
   recommended_rows toy_library square_rec 0 5 0 = [2, 1, 3] \<and>
   similarity_scores square_rec 0 ! 2 = similarity_scores square_rec 0 ! 1 \<and>
   \<not> sorted_wrt (\<lambda>i j. similarity_scores square_rec 0 ! j < similarity_scores square_rec 0 ! i \<or>
                       (similarity_scores square_rec 0 ! i = similarity_scores square_rec 0 ! j \<and> i < j))
        (recommended_rows toy_library square_rec 0 5 0)"
proof -
  have f: "find_song toy_library square_rec (strip (lower ''north'')) = Inr 0"
    by (simp add: lower_alpha square_find)
  have "map track_name' (recommendations (get_recommendations toy_library square_rec ''north'' 5 0))
          = map (\<lambda>idx. track_name (square ! idx)) [2, 1, 3]"
    unfolding get_recommendations_found[OF f] square_rows
    by (simp add: recommendation_def song_entry_def square_rec_def)
  then have names: "map track_name' (recommendations (get_recommendations toy_library square_rec ''north'' 5 0))
          = [''South'', ''East'', ''West'']"
    by (simp add: square_def track_def)
  have "\<not> sorted_wrt (\<lambda>i j. [1, 0, 0, - 1 :: real] ! j < [1, 0, 0, - 1] ! i \<or>
                       ([1, 0, 0, - 1 :: real] ! i = [1, 0, 0, - 1] ! j \<and> i < j)) [2, 1, 3]"
    by simp
  then show ?thesis using f names square_rows square_scores by simp
qed

section \<open>Finding the row of the query\<close>

lemma first_similar_none:
  "first_similar rows sims = [] \<longleftrightarrow>
     (\<forall>c \<in> set sims. \<forall>s \<in> set rows. lower (track_name s) \<noteq> c)"
  by (induction sims) (auto simp: Let_def index_where_empty)

lemma first_similar_skip:
  assumes "\<forall>x \<in> set skipped. \<forall>s \<in> set rows. lower (track_name s) \<noteq> x"
  shows "first_similar rows (skipped @ rest) = first_similar rows rest"
  using assms by (induction skipped) (auto simp: Let_def index_where_empty)

lemma first_similar_hit:
  assumes "\<forall>x \<in> set skipped. \<forall>s \<in> set rows. lower (track_name s) \<noteq> x"
    and "first_row (\<lambda>s. lower (track_name s) = c) rows i"
  shows "first_similar rows (skipped @ c # rest) \<noteq> []"
    and "hd (first_similar rows (skipped @ c # rest)) = i"
  using index_where_first[OF assms(2)] first_similar_skip[OF assms(1)]
  by (simp_all add: Let_def)

lemma find_song_title:
  assumes "\<forall>s \<in> set (data self). lower (track_name s) \<noteq> name"
    and "str_contains lib name = Inr found"
    and "first_row (\<lambda>s. found (lower (track_name s))) (data self) i"
  shows "find_song lib self name = Inr i"
proof -
  have "index_where (\<lambda>s. lower (track_name s) = name) (data self) = []"
    using assms(1) by (simp add: index_where_empty)
  then show ?thesis
    using assms(2) index_where_first[OF assms(3)] by (simp add: find_song_def Let_def)
qed

lemma find_song_artist:
  assumes "\<forall>s \<in> set (data self). lower (track_name s) \<noteq> name \<and> \<not> found (lower (track_name s))"
    and "str_contains lib name = Inr found"
    and "first_row (\<lambda>s. found (lower (track_artist s))) (data self) i"
  shows "find_song lib self name = Inr i"
proof -
  have "index_where (\<lambda>s. lower (track_name s) = name) (data self) = []"
    and "index_where (\<lambda>s. found (lower (track_name s))) (data self) = []"
    using assms(1) by (simp_all add: index_where_empty)
  then show ?thesis
    using assms(2) index_where_first[OF assms(3)] by (simp add: find_song_def Let_def)
qed

lemma find_song_fuzzy:
  assumes "\<forall>s \<in> set (data self). lower (track_name s) \<noteq> name \<and>
             \<not> found (lower (track_name s)) \<and> \<not> found (lower (track_artist s))"
    and "str_contains lib name = Inr found"
    and "get_close_matches lib name (map (\<lambda>s. lower (track_name s)) (data self))
           = skipped @ c # rest"
    and "\<forall>x \<in> set skipped. \<forall>s \<in> set (data self). lower (track_name s) \<noteq> x"
    and "first_row (\<lambda>s. lower (track_name s) = c) (data self) i"
  shows "find_song lib self name = Inr i"
proof -
  have "index_where (\<lambda>s. lower (track_name s) = name) (data self) = []"
    and "index_where (\<lambda>s. found (lower (track_name s))) (data self) = []"
    and "index_where (\<lambda>s. found (lower (track_artist s))) (data self) = []"
    using assms(1) by (simp_all add: index_where_empty)
  then show ?thesis
    using assms(2,3) first_similar_hit[OF assms(4,5), of rest]
    by (simp add: find_song_def Let_def)
qed

lemma find_song_none:
  assumes "\<forall>s \<in> set (data self). lower (track_name s) \<noteq> name \<and>
             \<not> found (lower (track_name s)) \<and> \<not> found (lower (track_artist s))"
    and "str_contains lib name = Inr found"
    and "similar = get_close_matches lib name (map (\<lambda>s. lower (track_name s)) (data self))"
    and "\<forall>c \<in> set similar. \<forall>s \<in> set (data self). lower (track_name s) \<noteq> c"
  shows "find_song lib self name = Inl (Error (not_found_message name) (take 3 similar))"
proof -
  have "index_where (\<lambda>s. lower (track_name s) = name) (data self) = []"
    and "index_where (\<lambda>s. found (lower (track_name s))) (data self) = []"
    and "index_where (\<lambda>s. found (lower (track_artist s))) (data self) = []"
    using assms(1) by (simp_all add: index_where_empty)
  moreover have "first_similar (data self) similar = []"
    using assms(4) by (simp add: first_similar_none)
  ultimately show ?thesis
    using assms(2) assms(3)[symmetric] by (simp add: find_song_def Let_def)
qed

text \<open>
  C4, as the code has it. The query is lowercased and stripped of surrounding
  whitespace, the titles and artists are only lowercased. Then the four attempts are
  made in this order, the first that selects a row wins, and the earliest row it
  selects is the input song: (1) the lowercased title equals the query; (2) the query is
  found in the lowercased title; (3) it is found in the lowercased artist; (4) the first
  close match that is the lowercased title of some row. An exact title match wins
  whatever the later attempts would select.
\<close>

theorem resolution_precedence:
  assumes "name = strip (lower song_name)"
  shows "(first_row (\<lambda>s. lower (track_name s) = name) (data self) i
            \<longrightarrow> find_song lib self name = Inr i) \<and>
         ((\<forall>s \<in> set (data self). lower (track_name s) \<noteq> name) \<and>
          str_contains lib name = Inr found \<and>
          first_row (\<lambda>s. found (lower (track_name s))) (data self) i
            \<longrightarrow> find_song lib self name = Inr i) \<and>
         ((\<forall>s \<in> set (data self). lower (track_name s) \<noteq> name \<and>
              \<not> found (lower (track_name s))) \<and>
          str_contains lib name = Inr found \<and>
          first_row (\<lambda>s. found (lower (track_artist s))) (data self) i
            \<longrightarrow> find_song lib self name = Inr i) \<and>
         ((\<forall>s \<in> set (data self). lower (track_name s) \<noteq> name \<and>
              \<not> found (lower (track_name s)) \<and> \<not> found (lower (track_artist s))) \<and>
          str_contains lib name = Inr found \<and>
          get_close_matches lib name (map (\<lambda>s. lower (track_name s)) (data self))
            = skipped @ c # rest \<and>
          (\<forall>x \<in> set skipped. \<forall>s \<in> set (data self). lower (track_name s) \<noteq> x) \<and>
          first_row (\<lambda>s. lower (track_name s) = c) (data self) i
            \<longrightarrow> find_song lib self name = Inr i) \<and>
         (find_song lib self name = Inr i
            \<longrightarrow> get_recommendations lib self song_name k m =
                  Result (map (recommendation self i) (recommended_rows lib self i k m))
                         (song_entry (data self ! i)))"
proof (intro conjI impI)
  assume "first_row (\<lambda>s. lower (track_name s) = name) (data self) i"
  then show "find_song lib self name = Inr i" by (rule find_song_exact)
next
  assume "(\<forall>s \<in> set (data self). lower (track_name s) \<noteq> name) \<and>
          str_contains lib name = Inr found \<and>
          first_row (\<lambda>s. found (lower (track_name s))) (data self) i"
  then show "find_song lib self name = Inr i" by (intro find_song_title) auto
next
  assume "(\<forall>s \<in> set (data self). lower (track_name s) \<noteq> name \<and>
              \<not> found (lower (track_name s))) \<and>
          str_contains lib name = Inr found \<and>
          first_row (\<lambda>s. found (lower (track_artist s))) (data self) i"
  then show "find_song lib self name = Inr i" by (intro find_song_artist[of _ _ found]) auto
next
  assume a: "(\<forall>s \<in> set (data self). lower (track_name s) \<noteq> name \<and>
              \<not> found (lower (track_name s)) \<and> \<not> found (lower (track_artist s))) \<and>
          str_contains lib name = Inr found \<and>
          get_close_matches lib name (map (\<lambda>s. lower (track_name s)) (data self))
            = skipped @ c # rest \<and>
          (\<forall>x \<in> set skipped. \<forall>s \<in> set (data self). lower (track_name s) \<noteq> x) \<and>
          first_row (\<lambda>s. lower (track_name s) = c) (data self) i"
  show "find_song lib self name = Inr i"
    by (rule find_song_fuzzy[of _ _ found _ skipped c rest]) (use a in blast)+
next
  assume "find_song lib self name = Inr i"
  then show "get_recommendations lib self song_name k m =
               Result (map (recommendation self i) (recommended_rows lib self i k m))
                      (song_entry (data self ! i))"
    unfolding assms by (rule get_recommendations_found)
qed

lemmas string_eval = lower_def lower_char_def strip_def is_space_def

lemmas square_eval = square_rec_def square_def track_def

lemma space_not_upper: "is_space c \<Longrightarrow> lower_char c = c"
proof -
  assume "is_space c"
  then have "c \<in> set [CHR 0x09, CHR 0x0A, CHR 0x0B, CHR 0x0C, CHR 0x0D,
                            CHR 0x1C, CHR 0x1D, CHR 0x1E, CHR 0x1F, CHR 0x20]"
    by (simp only: is_space_def)
  then consider "c = CHR 0x09" | "c = CHR 0x0A" | "c = CHR 0x0B" | "c = CHR 0x0C" | "c = CHR 0x0D"
    | "c = CHR 0x1C" | "c = CHR 0x1D" | "c = CHR 0x1E" | "c = CHR 0x1F" | "c = CHR 0x20"
    by (simp only: set_simps insert_iff empty_iff) blast
  then show ?thesis by cases (simp_all add: lower_char_def)
qed

lemma data_square: "data square_rec = square"
  by (simp add: square_rec_def)

theorem resolution_precedence_witness:
  "find_song toy_library square_rec (strip (lower ''East'')) = Inr 1 \<and>
   find_song toy_library square_rec (strip (lower '' ort '')) = Inr 0 \<and>
   find_song toy_library square_rec (strip (lower ''Sam'')) = Inr 2 \<and>
   find_song toy_library square_rec (strip (lower ''sth'')) = Inr 2 \<and>
   input_song (get_recommendations toy_library square_rec ''East'' 5 0) = song_entry (square ! 1)"
proof -
  note rp = resolution_precedence[OF refl, where self = square_rec and lib = toy_library]
  have lit: "str_contains toy_library (strip (lower '' ort '')) = Inr (contains ''ort'')"
    "str_contains toy_library (strip (lower ''Sam'')) = Inr (contains ''sam'')"
    "str_contains toy_library (strip (lower ''sth'')) = Inr (contains ''sth'')"
    by (simp_all add: str_contains_def special_chars_def string_eval)
  have 1: "find_song toy_library square_rec (strip (lower ''East'')) = Inr 1"
  proof -
    have "first_row (\<lambda>s. lower (track_name s) = strip (lower ''East'')) (data square_rec) 1"
      by (simp add: first_row_def square_eval string_eval)
    then show ?thesis
      using rp[where song_name = "''East''" and i = 1, THEN conjunct1] by blast
  qed
  have 2: "find_song toy_library square_rec (strip (lower '' ort '')) = Inr 0"
  proof -
    have "\<forall>s \<in> set (data square_rec). lower (track_name s) \<noteq> strip (lower '' ort '')"
      by (simp add: square_eval string_eval)
    moreover have "first_row (\<lambda>s. contains ''ort'' (lower (track_name s))) (data square_rec) 0"
      by (simp add: first_row_def square_eval string_eval)
    ultimately show ?thesis
      using rp[where song_name = "'' ort ''" and i = 0 and found = "contains ''ort''",
               THEN conjunct2, THEN conjunct1] lit(1)
      by blast
  qed
  have 3: "find_song toy_library square_rec (strip (lower ''Sam'')) = Inr 2"
  proof -
    have "\<forall>s \<in> set (data square_rec). lower (track_name s) \<noteq> strip (lower ''Sam'') \<and>
            \<not> contains ''sam'' (lower (track_name s))"
      by (simp add: square_eval string_eval)
    moreover have "first_row (\<lambda>s. contains ''sam'' (lower (track_artist s))) (data square_rec) 2"
      by (simp add: first_row_def square_eval string_eval less_Suc_eq numeral_2_eq_2)
    ultimately show ?thesis
      using rp[where song_name = "''Sam''" and i = 2 and found = "contains ''sam''",
               THEN conjunct2, THEN conjunct2, THEN conjunct1] lit(2)
      by blast
  qed
  have 4: "find_song toy_library square_rec (strip (lower ''sth'')) = Inr 2"
  proof -
    have "\<forall>s \<in> set (data square_rec). lower (track_name s) \<noteq> strip (lower ''sth'') \<and>
            \<not> contains ''sth'' (lower (track_name s)) \<and>
            \<not> contains ''sth'' (lower (track_artist s))"
      by (simp add: square_eval string_eval)
    moreover have "get_close_matches toy_library (strip (lower ''sth''))
                     (map (\<lambda>s. lower (track_name s)) (data square_rec)) = [] @ ''south'' # []"
      by (simp add: toy_library_def square_eval string_eval)
    moreover have "\<forall>x \<in> set []. \<forall>s \<in> set (data square_rec). lower (track_name s) \<noteq> x"
      by simp
    moreover have "first_row (\<lambda>s. lower (track_name s) = ''south'') (data square_rec) 2"
      by (simp add: first_row_def square_eval string_eval less_Suc_eq numeral_2_eq_2)
    ultimately show ?thesis
      using rp[where song_name = "''sth''" and i = 2 and found = "contains ''sth''"
                 and skipped = "[]" and c = "''south''" and rest = "[]",
               THEN conjunct2, THEN conjunct2, THEN conjunct2, THEN conjunct1] lit(3)
      by blast
  qed
  have 5: "input_song (get_recommendations toy_library square_rec ''East'' 5 0)
             = song_entry (square ! 1)"
    using rp[where song_name = "''East''" and i = 1 and k = 5 and m = 0,
             THEN conjunct2, THEN conjunct2, THEN conjunct2, THEN conjunct2] 1
    by (simp add: data_square)
  show ?thesis using 1 2 3 4 5 by blast
qed

text \<open>
  C4 as stated, any query equal to a title but for case, fails on \<open>greetings\<close>: the
  query \<open>Hello \<close> with its final space is the title of row 1 to the letter, but the
  query is stripped and the title is not, so the first attempt selects nothing and
  the second selects row 0, whose title merely contains \<open>hello\<close>.
\<close>

theorem stripped_query_counterexample:
  "MusicRecommender greetings = Inr greetings_rec \<and>
   lower ''Hello '' = lower (track_name (greetings ! 1)) \<and>
   lower ''Hello '' \<noteq> lower (track_name (greetings ! 0)) \<and>
   find_song toy_library greetings_rec (strip (lower ''Hello '')) = Inr 0 \<and>
   track_name' (input_song (get_recommendations toy_library greetings_rec ''Hello '' 5 0))
     = ''Hello World''"
proof -
  have lit: "str_contains toy_library ''hello'' = Inr (contains ''hello'')"
    by (simp add: str_contains_def special_chars_def)
  have name: "strip (lower ''Hello '') = ''hello''"
    by (simp add: string_eval)
  have "\<forall>s \<in> set (data greetings_rec). lower (track_name s) \<noteq> ''hello''"
    by (simp add: greetings_rec_def greetings_def track_def string_eval)
  moreover have "first_row (\<lambda>s. contains ''hello'' (lower (track_name s))) (data greetings_rec) 0"
    by (simp add: first_row_def greetings_rec_def greetings_def track_def string_eval)
  ultimately have f: "find_song toy_library greetings_rec (strip (lower ''Hello '')) = Inr 0"
    unfolding name using lit by (intro find_song_title) auto
  have "track_name' (input_song (get_recommendations toy_library greetings_rec ''Hello '' 5 0))
          = ''Hello World''"
    unfolding get_recommendations_found[OF f]
    by (simp add: song_entry_def greetings_rec_def greetings_def track_def)
  moreover have "lower ''Hello '' = lower (track_name (greetings ! 1))"
    "lower ''Hello '' \<noteq> lower (track_name (greetings ! 0))"
    by (simp_all add: greetings_def track_def string_eval)
  ultimately show ?thesis using f greetings_built by blast
qed

text \<open>
  C5, as the code has it. A query that is empty or all whitespace is not rejected: it is
  stripped to the empty string and goes through the attempts like any other query. They
  select a row, since the empty string is found in every title, and the recommendations
  for that row are returned.
\<close>

theorem blank_query_resolves:
  assumes "MusicRecommender rows = Inr self"
    and "\<forall>c \<in> set song_name. is_space c"
  shows "strip (lower song_name) = [] \<and>
         (\<exists>i < length rows.
            find_song lib self [] = Inr i \<and>
            get_recommendations lib self song_name k m =
              Result (map (recommendation self i) (recommended_rows lib self i k m))
                     (song_entry (rows ! i)))"
proof -
  have d: "data self = rows" by (rule built(1)[OF assms(1)])
  have ne: "rows \<noteq> []" by (rule built(2)[OF assms(1)])
  have l: "lower song_name = song_name"
    unfolding lower_def by (rule map_idI) (use assms(2) space_not_upper in blast)
  have dw: "dropWhile is_space song_name = []"
    using assms(2) by (simp only: dropWhile_eq_Nil_conv)
  have name: "strip (lower song_name) = []"
    unfolding strip_def l dw by simp
  have low: "(lower t = []) = (t = [])" for t by (simp add: lower_def)
  have found: "get_recommendations lib self song_name k m =
                 Result (map (recommendation self i) (recommended_rows lib self i k m))
                        (song_entry (rows ! i))"
    if "find_song lib self [] = Inr i" for i
    using get_recommendations_found[of lib self song_name i k m] that
    unfolding name d by simp
  have "\<exists>i < length rows. find_song lib self [] = Inr i"
  proof (cases "\<exists>s \<in> set rows. track_name s = []")
    case True
    let ?i = "hd (index_where (\<lambda>s. lower (track_name s) = []) rows)"
    have "index_where (\<lambda>s. lower (track_name s) = []) rows \<noteq> []"
      using True unfolding index_where_empty low by blast
    then have fr: "first_row (\<lambda>s. lower (track_name s) = []) rows ?i"
      by (rule index_where_hd)
    then have "first_row (\<lambda>s. lower (track_name s) = []) (data self) ?i"
      unfolding d .
    then have "find_song lib self [] = Inr ?i"
      by (rule find_song_exact)
    moreover have "?i < length rows" using fr unfolding first_row_def by blast
    ultimately show ?thesis by blast
  next
    case False
    have none: "\<forall>s \<in> set (data self). lower (track_name s) \<noteq> []"
      using False unfolding low d by blast
    have lit: "str_contains lib [] = Inr (contains [])"
      by (simp add: str_contains_def)
    have every: "contains [] t" for t by (cases t) simp_all
    have "first_row (\<lambda>s. contains [] (lower (track_name s))) (data self) 0"
      using ne by (simp add: first_row_def d every)
    with none lit have "find_song lib self [] = Inr 0"
      by (rule find_song_title)
    moreover have "0 < length rows" using ne by simp
    ultimately show ?thesis by blast
  qed
  then show ?thesis using name found by blast
qed

theorem blank_query_resolves_witness:
  "MusicRecommender square = Inr square_rec \<and> list_all is_space ''   '' \<and>
   strip (lower ''   '') = [] \<and>
   (\<exists>i < length square.
      find_song toy_library square_rec [] = Inr i \<and>
      get_recommendations toy_library square_rec ''   '' 5 0 =
        Result (map (recommendation square_rec i) (recommended_rows toy_library square_rec i 5 0))
               (song_entry (square ! i)))"
proof -
  have sp: "\<forall>c \<in> set ''   ''. is_space c" by (simp add: is_space_def)
  show ?thesis
    using blank_query_resolves[OF square_built sp, of toy_library 5 0] square_built sp
    unfolding list_all_iff by blast
qed

text \<open>
  C5 as stated, rejection before any matching, fails: the query of three spaces on
  \<open>square\<close> is answered with the recommendations for row 0.
\<close>

theorem blank_query_counterexample:
  "list_all is_space ''   '' \<and>
   get_recommendations toy_library square_rec ''   '' 5 0 =
     Result (map (recommendation square_rec 0) [2, 1, 3]) (song_entry (square ! 0))"
proof -
  have name: "strip (lower ''   '') = []" by (simp add: string_eval)
  have "\<forall>s \<in> set (data square_rec). lower (track_name s) \<noteq> []"
    by (simp add: square_eval string_eval)
  moreover have "str_contains toy_library [] = Inr (contains [])"
    by (simp add: str_contains_def)
  moreover have "first_row (\<lambda>s. contains [] (lower (track_name s))) (data square_rec) 0"
    by (simp add: first_row_def square_eval string_eval)
  ultimately have "find_song toy_library square_rec (strip (lower ''   '')) = Inr 0"
    unfolding name by (intro find_song_title) auto
  from get_recommendations_found[OF this, of 5 0] show ?thesis
    by (simp add: square_rows data_square is_space_def)
qed

text \<open>
  C7. When none of the four attempts selects a row, the answer is the error dictionary
  with the message \<open>Song '...' not found. Did you mean:\<close> around the stripped,
  lowercased query, and with the first three close matches as suggestions: at most
  three strings, and none when there was no close match. A matcher that answers only
  with strings among those it was given, as \<open>difflib\<close> does, leaves no suggestion at
  all, since each of its answers is the title of a row.
\<close>

theorem not_found_result:
  assumes "name = strip (lower song_name)"
    and "\<forall>s \<in> set (data self). lower (track_name s) \<noteq> name \<and>
           \<not> found (lower (track_name s)) \<and> \<not> found (lower (track_artist s))"
    and "str_contains lib name = Inr found"
    and "similar = get_close_matches lib name (map (\<lambda>s. lower (track_name s)) (data self))"
    and "\<forall>c \<in> set similar. \<forall>s \<in> set (data self). lower (track_name s) \<noteq> c"
  shows "get_recommendations lib self song_name k m =
           Error (''Song '' @ [CHR 0x27] @ name @ [CHR 0x27] @ '' not found. Did you mean:'')
                 (take 3 similar) \<and>
         length (suggestions (get_recommendations lib self song_name k m)) \<le> 3 \<and>
         set (suggestions (get_recommendations lib self song_name k m)) \<subseteq> set similar \<and>
         (similar = [] \<longrightarrow> suggestions (get_recommendations lib self song_name k m) = []) \<and>
         (set similar \<subseteq> set (map (\<lambda>s. lower (track_name s)) (data self))
            \<longrightarrow> suggestions (get_recommendations lib self song_name k m) = [])"
proof -
  have "find_song lib self name = Inl (Error (not_found_message name) (take 3 similar))"
    using assms(2-5) by (rule find_song_none)
  then have eq: "get_recommendations lib self song_name k m =
                   Error (''Song '' @ [CHR 0x27] @ name @ [CHR 0x27] @ '' not found. Did you mean:'')
                         (take 3 similar)"
    by (simp add: get_recommendations_def assms(1) not_found_message_def)
  have sub: "set (take 3 similar) \<subseteq> set similar" by (rule set_take_subset)
  have "similar = []"
    if titles: "set similar \<subseteq> set (map (\<lambda>s. lower (track_name s)) (data self))"
  proof (rule ccontr)
    assume "similar \<noteq> []"
    then obtain c where c: "c \<in> set similar" by (cases similar) auto
    then have "c \<in> set (map (\<lambda>s. lower (track_name s)) (data self))"
      using titles by blast
    then obtain s where "s \<in> set (data self)" "lower (track_name s) = c"
      by auto
    then show False using assms(5) c by blast
  qed
  then show ?thesis using eq sub by simp
qed

theorem not_found_result_witness:
  "get_recommendations toy_library square_rec ''zzzznotasong'' 5 0 =
     Error ''Song 'zzzznotasong' not found. Did you mean:'' [] \<and>
   get_recommendations stray_library square_rec ''zzzznotasong'' 5 0 =
     Error ''Song 'zzzznotasong' not found. Did you mean:'' [''one'', ''two'', ''three''] \<and>
   length (suggestions (get_recommendations stray_library square_rec ''zzzznotasong'' 5 0)) = 3"
proof -
  have name: "''zzzznotasong'' = strip (lower ''zzzznotasong'')" by (simp add: string_eval)
  have a: "\<forall>s \<in> set (data square_rec). lower (track_name s) \<noteq> ''zzzznotasong'' \<and>
             \<not> contains ''zzzznotasong'' (lower (track_name s)) \<and>
             \<not> contains ''zzzznotasong'' (lower (track_artist s))"
    by (simp add: square_eval string_eval)
  have b: "str_contains toy_library ''zzzznotasong'' = Inr (contains ''zzzznotasong'')"
    "str_contains stray_library ''zzzznotasong'' = Inr (contains ''zzzznotasong'')"
    by (simp_all add: str_contains_def special_chars_def)
  have c: "[] = get_close_matches toy_library ''zzzznotasong''
                  (map (\<lambda>s. lower (track_name s)) (data square_rec))"
    by (simp add: toy_library_def square_eval string_eval)
  have d: "\<forall>c \<in> set []. \<forall>s \<in> set (data square_rec). lower (track_name s) \<noteq> c" by simp
  have c': "[''one'', ''two'', ''three'', ''four''] =
              get_close_matches stray_library ''zzzznotasong''
                (map (\<lambda>s. lower (track_name s)) (data square_rec))"
    by (simp add: stray_library_def)
  have d': "\<forall>c \<in> set [''one'', ''two'', ''three'', ''four''].
              \<forall>s \<in> set (data square_rec). lower (track_name s) \<noteq> c"
    by (simp add: square_eval string_eval)
  have 1: "get_recommendations toy_library square_rec ''zzzznotasong'' 5 0 =
             Error ''Song 'zzzznotasong' not found. Did you mean:'' []"
    using not_found_result[OF name a b(1) c d, of 5 0, THEN conjunct1] by simp
  have 2: "get_recommendations stray_library square_rec ''zzzznotasong'' 5 0 =
             Error ''Song 'zzzznotasong' not found. Did you mean:'' [''one'', ''two'', ''three'']"
    using not_found_result[OF name a b(2) c' d', of 5 0, THEN conjunct1] by simp
  show ?thesis using 1 2 by simp
qed

section \<open>Degenerate numbers\<close>



section \<open>Sampling\<close>

lemma sample_rows_ok:
  "\<exists>recs. sample_rows rng pool num = Inr recs \<and> sampled_from pool num recs"
proof -
  have "min num (length pool) \<le> length pool" by simp
  from choice_ok[OF this, of rng] obtain idxs where
    c: "choice rng (length pool) (min num (length pool)) = Inr idxs"
    and i: "distinct idxs" "\<forall>idx \<in> set idxs. idx < length pool"
      "length idxs = min num (length pool)"
    by blast
  have "sample_rows rng pool num = Inr (map (\<lambda>idx. song_entry (pool ! idx)) idxs)"
    by (simp add: sample_rows_def c)
  moreover have "sampled_from pool num (map (\<lambda>idx. song_entry (pool ! idx)) idxs)"
    unfolding sampled_from_def using i by blast
  ultimately show ?thesis by blast
qed

lemma sampled_from_length: "sampled_from pool num recs \<Longrightarrow> length recs = min num (length pool)"
  by (auto simp: sampled_from_def)

lemma sampled_from_rows:
  assumes "sampled_from pool num recs" and "r \<in> set recs"
  shows "\<exists>s \<in> set pool. r = song_entry s"
proof -
  obtain idxs where recs: "recs = map (\<lambda>idx. song_entry (pool ! idx)) idxs"
    and lt: "\<forall>idx \<in> set idxs. idx < length pool"
    using assms(1) by (auto simp: sampled_from_def)
  obtain idx where "idx \<in> set idxs" "r = song_entry (pool ! idx)"
    using assms(2) unfolding recs by auto
  then show ?thesis using lt nth_mem by blast
qed

lemma known_moods:
  "map_of mood_filters name = None \<longleftrightarrow> name \<notin> set [''happy'', ''sad'', ''energetic'', ''calm'']"
  by (simp add: mood_filters_def)

lemma mood_result:
  "get_mood_based_recommendations rng self mood num =
     (if mood_pool self mood = [] then Inr None
      else case sample_rows rng (mood_pool self mood) num of
             Inl e \<Rightarrow> Inl e | Inr recs \<Rightarrow> Inr (Some recs))"
  by (simp add: get_mood_based_recommendations_def mood_pool_def Let_def split: option.split)

text \<open>
  C6, as the code has it. A mood whose lowercased name is not one of the four is
  answered with \<open>None\<close>, not with an error; a mood of the table that no row satisfies
  is answered with \<open>None\<close> as well, not with an empty list. When rows satisfy the
  mood, a list of \<open>min num_recommendations (number of such rows)\<close> entries is returned.
\<close>

theorem mood_none_or_sample:
  "(lower mood \<notin> set [''happy'', ''sad'', ''energetic'', ''calm'']
      \<longrightarrow> get_mood_based_recommendations rng self mood num = Inr None) \<and>
   (mood_pool self mood = []
      \<longrightarrow> get_mood_based_recommendations rng self mood num = Inr None) \<and>
   (mood_pool self mood \<noteq> []
      \<longrightarrow> (\<exists>recs. get_mood_based_recommendations rng self mood num = Inr (Some recs) \<and>
                 length recs = min num (length (mood_pool self mood))))"
proof (intro conjI impI)
  assume "lower mood \<notin> set [''happy'', ''sad'', ''energetic'', ''calm'']"
  then have "map_of mood_filters (lower mood) = None" unfolding known_moods .
  then show "get_mood_based_recommendations rng self mood num = Inr None"
    by (simp add: get_mood_based_recommendations_def)
next
  assume "mood_pool self mood = []"
  then show "get_mood_based_recommendations rng self mood num = Inr None"
    by (simp add: mood_result)
next
  assume ne: "mood_pool self mood \<noteq> []"
  obtain recs where "sample_rows rng (mood_pool self mood) num = Inr recs"
    and "sampled_from (mood_pool self mood) num recs"
    using sample_rows_ok by blast
  then show "\<exists>recs. get_mood_based_recommendations rng self mood num = Inr (Some recs) \<and>
                   length recs = min num (length (mood_pool self mood))"
    using ne by (simp add: mood_result sampled_from_length)
qed

lemma shuffle_eval: "permutation sample_source (Suc 0) = [0]"
  by (simp add: permutation_def)

lemma square_happy: "mood_pool square_rec ''Happy'' = [square ! 3]"
  by (simp add: mood_pool_def mood_filters_def data_square square_def track_def string_eval)

theorem mood_none_or_sample_witness:
  "lower ''jazzy'' \<notin> set [''happy'', ''sad'', ''energetic'', ''calm''] \<and>
   get_mood_based_recommendations sample_source square_rec ''jazzy'' 5 = Inr None \<and>
   mood_pool square_rec ''calm'' = [] \<and>
   get_mood_based_recommendations sample_source square_rec ''calm'' 5 = Inr None \<and>
   mood_pool square_rec ''Happy'' = [square ! 3] \<and>
   get_mood_based_recommendations sample_source square_rec ''Happy'' 5
     = Inr (Some [song_entry (square ! 3)])"
proof -
  note t = mood_none_or_sample[where rng = sample_source and self = square_rec and num = 5]
  have j: "lower ''jazzy'' \<notin> set [''happy'', ''sad'', ''energetic'', ''calm'']"
    by (simp add: string_eval)
  have c: "mood_pool square_rec ''calm'' = []"
    by (simp add: mood_pool_def mood_filters_def data_square square_def track_def string_eval)
  have 1: "get_mood_based_recommendations sample_source square_rec ''jazzy'' 5 = Inr None"
    using t[where mood = "''jazzy''"] j by blast
  have 2: "get_mood_based_recommendations sample_source square_rec ''calm'' 5 = Inr None"
    using t[where mood = "''calm''"] c by blast
  have 3: "get_mood_based_recommendations sample_source square_rec ''Happy'' 5
             = Inr (Some [song_entry (square ! 3)])"
    unfolding mood_result square_happy
    by (simp add: sample_rows_def choice_def shuffle_eval)
  show ?thesis using j c 1 2 3 square_happy by blast
qed

text \<open>
  C6 as stated fails on \<open>greetings\<close>, where no row has a valence of at least 0.7 and an
  energy of at least 0.6: the mood \<open>happy\<close> is answered with \<open>None\<close>, which is not the
  empty list and is the very answer given to the unknown mood \<open>jazzy\<close>.
\<close>

theorem mood_counterexample:
  "MusicRecommender greetings = Inr greetings_rec \<and>
   mood_pool greetings_rec ''happy'' = [] \<and>
   get_mood_based_recommendations sample_source greetings_rec ''happy'' 5 = Inr None \<and>
   get_mood_based_recommendations sample_source greetings_rec ''happy'' 5 \<noteq> Inr (Some []) \<and>
   get_mood_based_recommendations sample_source greetings_rec ''jazzy'' 5 = Inr None"
proof -
  have p: "mood_pool greetings_rec ''happy'' = []"
    by (simp add: mood_pool_def mood_filters_def greetings_rec_def greetings_def track_def
        string_eval)
  have q: "mood_pool greetings_rec ''jazzy'' = []"
    by (simp add: mood_pool_def mood_filters_def string_eval)
  show ?thesis using p q greetings_built by (simp add: mood_result)
qed

lemma random_songs_result:
  "\<exists>recs. sample_rows rng (random_pool self m g) num = Inr recs \<and>
          get_random_songs rng self num m g = recs \<and>
          sampled_from (random_pool self m g) num recs"
proof -
  obtain recs where "sample_rows rng (random_pool self m g) num = Inr recs"
    and "sampled_from (random_pool self m g) num recs"
    using sample_rows_ok by blast
  then show ?thesis by (simp add: get_random_songs_def)
qed

lemma indian_result:
  "get_indian_music_recommendations rng self num m = None \<and> indian_pool self m = [] \<or>
   (\<exists>recs. get_indian_music_recommendations rng self num m = Some recs \<and>
           sampled_from (indian_pool self m) num recs)"
proof (cases "filter indian_mask (data self) = []")
  case True
  then show ?thesis
    by (simp add: get_indian_music_recommendations_def indian_pool_def)
next
  case False
  obtain recs where "sample_rows rng (indian_pool self m) num = Inr recs"
    and "sampled_from (indian_pool self m) num recs"
    using sample_rows_ok by blast
  then show ?thesis using False by (simp add: get_indian_music_recommendations_def)
qed

lemma mood_sampled:
  "get_mood_based_recommendations rng self mood num = Inr None \<and> mood_pool self mood = [] \<or>
   (\<exists>recs. get_mood_based_recommendations rng self mood num = Inr (Some recs) \<and>
           sampled_from (mood_pool self mood) num recs)"
proof (cases "mood_pool self mood = []")
  case True
  then show ?thesis by (simp add: mood_result)
next
  case False
  obtain recs where "sample_rows rng (mood_pool self mood) num = Inr recs"
    and "sampled_from (mood_pool self mood) num recs"
    using sample_rows_ok by blast
  then show ?thesis using False by (simp add: mood_result)
qed







section \<open>Durations\<close>

lemma from_row_entry: "from_row s (song_entry s)"
  by (simp add: from_row_def song_entry_def)

lemma from_row_recommendation: "from_row (data self ! idx) (recommendation self song_idx idx)"
  by (simp add: from_row_def song_entry_def recommendation_def)

lemma sampled_from_data:
  assumes "sampled_from pool num recs" and "set pool \<subseteq> set rows" and "r \<in> set recs"
  shows "\<exists>s \<in> set rows. from_row s r"
proof -
  obtain s where "s \<in> set pool" "r = song_entry s"
    using sampled_from_rows[OF assms(1,3)] by blast
  then show ?thesis using assms(2) from_row_entry by blast
qed

lemma apply_filters_subset: "set (apply_filters filters pool) \<subseteq> set pool"
proof (induction filters pool rule: apply_filters.induct)
  case (1 pool)
  then show ?case by simp
next
  case (2 feature min_val max_val rest pool)
  have "set (filter (\<lambda>s. feature s \<ge> min_val \<and> feature s \<le> max_val) pool) \<subseteq> set pool"
    by (rule filter_is_subset)
  then show ?case using 2 by auto
qed

lemma mood_pool_subset: "set (mood_pool self mood) \<subseteq> set (data self)"
proof (cases "map_of mood_filters (lower mood)")
  case None
  then show ?thesis by (simp add: mood_pool_def)
next
  case (Some filters)
  then show ?thesis by (simp add: mood_pool_def apply_filters_subset)
qed

lemma random_pool_subset: "set (random_pool self m g) \<subseteq> set (data self)"
  by (auto simp: random_pool_def Let_def split: option.split)

lemma indian_pool_subset: "set (indian_pool self m) \<subseteq> set (data self)"
  by (auto simp: indian_pool_def Let_def)

lemma genre_result:
  assumes "get_genre_recommendations rng self g num = Inr (Some recs)"
  shows "\<exists>pool. set pool \<subseteq> set (data self) \<and> sampled_from pool num recs"
proof -
  define unique where "unique = remdups (map playlist_genre (data self))"
  define exact where "exact = filter (\<lambda>x. lower x = lower g) unique"
  define matching where
    "matching = (if exact = [] then filter (\<lambda>x. contains (lower g) (lower x)) unique else exact)"
  define pool where "pool = filter (\<lambda>s. playlist_genre s \<in> set matching) (data self)"
  have eq: "get_genre_recommendations rng self g num =
          (if matching = [] then Inr None
           else if length pool = 0 then Inr None
           else case sample_rows rng pool num of
                  Inl e \<Rightarrow> Inl e | Inr recs \<Rightarrow> Inr (Some recs))"
    unfolding get_genre_recommendations_def Let_def pool_def matching_def exact_def unique_def ..
  obtain recs' where s: "sample_rows rng pool num = Inr recs'" and sf: "sampled_from pool num recs'"
    using sample_rows_ok by blast
  have "recs = recs'"
    using assms unfolding eq s by (simp split: if_splits)
  moreover have "set pool \<subseteq> set (data self)" unfolding pool_def by (rule filter_is_subset)
  ultimately show ?thesis using sf by blast
qed

lemma first_similar_in_range:
  "first_similar rows sims \<noteq> [] \<Longrightarrow> hd (first_similar rows sims) < length rows"
proof (induction sims)
  case Nil
  then show ?case by simp
next
  case (Cons c sims)
  show ?case
  proof (cases "index_where (\<lambda>s. lower (track_name s) = c) rows = []")
    case True
    then show ?thesis using Cons by (simp add: Let_def)
  next
    case False
    from index_where_hd[OF False] have "hd (index_where (\<lambda>s. lower (track_name s) = c) rows) < length rows"
      unfolding first_row_def by blast
    then show ?thesis using False by (simp add: Let_def)
  qed
qed

lemma index_where_in_range:
  "index_where P rows \<noteq> [] \<Longrightarrow> hd (index_where P rows) < length rows"
  using index_where_hd[of P rows] unfolding first_row_def by blast

lemma find_song_in_range:
  assumes "find_song lib self name = Inr i"
  shows "i < length (data self)"
  using assms index_where_in_range first_similar_in_range
  unfolding find_song_def Let_def
  by (auto split: if_splits sum.splits)

lemma find_song_early:
  assumes "find_song lib self name = Inl early"
  shows "\<exists>msg sugg. early = Error msg sugg"
  using assms unfolding find_song_def Let_def
  by (auto split: if_splits sum.splits)

lemma recommended_rows_in_range:
  assumes "length (song_features self) = length (data self)"
  shows "\<forall>idx \<in> set (recommended_rows lib self song_idx k m). idx < length (data self)"
proof -
  let ?scores = "similarity_scores self song_idx"
  have "length ?scores = length (data self)"
    by (simp add: similarity_scores_def cosine_similarity_def assms)
  then have a: "set (argsort lib ?scores) = {..<length (data self)}"
    by (simp add: set_argsort)
  have "set (recommended_rows lib self song_idx k m) \<subseteq> set (take k (tl (rev (argsort lib ?scores))))"
    unfolding recommended_rows_eq by (rule filter_is_subset)
  also have "\<dots> \<subseteq> set (tl (rev (argsort lib ?scores)))" by (rule set_take_subset)
  also have "\<dots> \<subseteq> set (rev (argsort lib ?scores))"
    by (cases "rev (argsort lib ?scores)") auto
  finally show ?thesis using a by auto
qed

text \<open>
  C10. Every entry returned by a recommendation method describes a row of the catalog,
  and its \<open>duration\<close> is that row's \<open>duration_ms\<close> divided by 1000 and rounded down:
  the recommendations and the input song of \<open>get_recommendations\<close>, and the entries of
  the mood, genre, random and region methods.
\<close>

theorem duration_in_whole_seconds:
  assumes "MusicRecommender rows = Inr self"
  shows "(\<forall>recs inp. get_recommendations lib self song_name k m = Result recs inp
            \<longrightarrow> (\<forall>r \<in> set (inp # recs). \<exists>s \<in> set rows. from_row s r)) \<and>
         (\<forall>recs. get_mood_based_recommendations rng self mood k = Inr (Some recs)
            \<longrightarrow> (\<forall>r \<in> set recs. \<exists>s \<in> set rows. from_row s r)) \<and>
         (\<forall>recs. get_genre_recommendations rng self g k = Inr (Some recs)
            \<longrightarrow> (\<forall>r \<in> set recs. \<exists>s \<in> set rows. from_row s r)) \<and>
         (\<forall>r \<in> set (get_random_songs rng self k m genre_opt). \<exists>s \<in> set rows. from_row s r) \<and>
         (\<forall>recs. get_indian_music_recommendations rng self k m = Some recs
            \<longrightarrow> (\<forall>r \<in> set recs. \<exists>s \<in> set rows. from_row s r))"
proof -
  have d: "data self = rows" by (rule built(1)[OF assms])
  have len: "length (song_features self) = length (data self)"
    using built(3)[OF assms] d by simp
  have 1: "\<exists>s \<in> set rows. from_row s r"
    if res: "get_recommendations lib self song_name k m = Result recs inp"
      and r: "r \<in> set (inp # recs)" for recs inp r
  proof -
    obtain i where f: "find_song lib self (strip (lower song_name)) = Inr i"
    proof (cases "find_song lib self (strip (lower song_name))")
      case (Inl early)
      then have "get_recommendations lib self song_name k m = early"
        by (simp add: get_recommendations_def)
      then show ?thesis using find_song_early[OF Inl] res by auto
    next
      case (Inr i)
      then show ?thesis using that by blast
    qed
    have i: "i < length rows" using find_song_in_range[OF f] d by simp
    have inp: "inp = song_entry (rows ! i)"
      and recs: "recs = map (recommendation self i) (recommended_rows lib self i k m)"
      using res unfolding get_recommendations_found[OF f] d by simp_all
    show ?thesis
    proof (cases "r = inp")
      case True
      then show ?thesis using inp i from_row_entry nth_mem by blast
    next
      case False
      then have "r \<in> set recs" using r by simp
      then obtain idx where idx: "idx \<in> set (recommended_rows lib self i k m)"
        and "r = recommendation self i idx"
        unfolding recs by auto
      then have "from_row (rows ! idx) r"
        using from_row_recommendation[of self idx i] d by simp
      moreover have "idx < length rows"
        using recommended_rows_in_range[OF len, of lib i k m] idx d by simp
      ultimately show ?thesis using nth_mem by blast
    qed
  qed
  have 2: "\<exists>s \<in> set rows. from_row s r"
    if res: "get_mood_based_recommendations rng self mood k = Inr (Some recs)"
      and r: "r \<in> set recs" for recs r
  proof -
    have "sampled_from (mood_pool self mood) k recs"
      using mood_sampled[of rng self mood k] res by auto
    then have "\<exists>s \<in> set (data self). from_row s r"
      by (rule sampled_from_data[OF _ mood_pool_subset r])
    then show ?thesis unfolding d .
  qed
  have 3: "\<exists>s \<in> set rows. from_row s r"
    if res: "get_genre_recommendations rng self g k = Inr (Some recs)"
      and r: "r \<in> set recs" for recs r
  proof -
    obtain pool where "set pool \<subseteq> set (data self)" "sampled_from pool k recs"
      using genre_result[OF res] by blast
    then have "\<exists>s \<in> set (data self). from_row s r"
      using sampled_from_data[OF _ _ r] by blast
    then show ?thesis unfolding d .
  qed
  have 4: "\<exists>s \<in> set rows. from_row s r"
    if r: "r \<in> set (get_random_songs rng self k m genre_opt)" for r
  proof -
    have "sampled_from (random_pool self m genre_opt) k (get_random_songs rng self k m genre_opt)"
      using random_songs_result[of rng self m genre_opt k] by auto
    then have "\<exists>s \<in> set (data self). from_row s r"
      by (rule sampled_from_data[OF _ random_pool_subset r])
    then show ?thesis unfolding d .
  qed
  have 5: "\<exists>s \<in> set rows. from_row s r"
    if res: "get_indian_music_recommendations rng self k m = Some recs"
      and r: "r \<in> set recs" for recs r
  proof -
    have "sampled_from (indian_pool self m) k recs"
      using indian_result[of rng self k m] res by auto
    then have "\<exists>s \<in> set (data self). from_row s r"
      by (rule sampled_from_data[OF _ indian_pool_subset r])
    then show ?thesis unfolding d .
  qed
  show ?thesis using 1 2 3 4 5 by blast
qed

theorem duration_in_whole_seconds_witness:
  "MusicRecommender square = Inr square_rec \<and>
   get_recommendations toy_library square_rec ''north'' 5 0 =
     Result (map (recommendation square_rec 0) [2, 1, 3]) (song_entry (square ! 0)) \<and>
   list_all (\<lambda>r. list_ex (\<lambda>s. from_row s r) square)
     (song_entry (square ! 0) # map (recommendation square_rec 0) [2, 1, 3]) \<and>
   duration (song_entry (square ! 0)) = 215 \<and> duration_ms (square ! 0) = 215999 \<and>
   list_all (\<lambda>r. list_ex (\<lambda>s. from_row s r) square)
     (get_random_songs sample_source square_rec 5 50 None)"
proof -
  note t = duration_in_whole_seconds[OF square_built, where lib = toy_library
      and song_name = "''north''" and k = 5 and m = 0 and rng = sample_source]
  have f: "find_song toy_library square_rec (strip (lower ''north'')) = Inr 0"
    by (simp add: lower_alpha square_find)
  have res: "get_recommendations toy_library square_rec ''north'' 5 0 =
     Result (map (recommendation square_rec 0) [2, 1, 3]) (song_entry (square ! 0))"
    unfolding get_recommendations_found[OF f] square_rows data_square ..
  have a: "\<forall>r \<in> set (song_entry (square ! 0) # map (recommendation square_rec 0) [2, 1, 3]).
             \<exists>s \<in> set square. from_row s r"
    using t res by blast
  have b: "\<forall>r \<in> set (get_random_songs sample_source square_rec 5 50 None).
             \<exists>s \<in> set square. from_row s r"
    using duration_in_whole_seconds[OF square_built, where rng = sample_source and k = 5
        and m = 50 and genre_opt = None]
    by blast
  have c: "duration (song_entry (square ! 0)) = 215" "duration_ms (square ! 0) = 215999"
    by (simp_all add: song_entry_def square_def track_def)
  show ?thesis
    using square_built res a b c unfolding list_all_iff list_ex_iff by blast
qed

end
